theory Spec2Isabelle
  imports Complex_Main
begin

section \<open>Data model\<close>

text \<open>
  The program is \<^verbatim>\<open>src/spectra_processing.py\<close>. Its tables are pandas data frames
  and its arrays are numpy arrays of floats. The embedding keeps the following view of
  them.
  \<^item> A number is a \<^typ>\<open>real\<close>: arithmetic is exact, rounding is not modelled.
  \<^item> A cell of a data frame is a \<^typ>\<open>real option\<close>: \<open>None\<close> is pandas' missing
    value \<^verbatim>\<open>NaN\<close>, which \<^verbatim>\<open>pd.concat\<close> writes where a frame lacks a column.
  \<^item> A data frame is its list of column labels and its list of rows, with the default
    \<^verbatim>\<open>RangeIndex\<close> (the index \<^verbatim>\<open>read_csv\<close> and \<^verbatim>\<open>groupby(as_index=False)\<close> give).
  \<^item> An exception is a value of \<open>py_error\<close>; a function that may raise returns
    \<open>py_error + 'a\<close>, with \<open>Inl\<close> the exception.
\<close>

datatype py_error =
    ValueError string
  | KeyError string
  | IndexError
  | NameError string

type_synonym cell = "real option"

record dataframe =
  columns :: "string list"
  rows :: "cell list list"

text \<open>\<^verbatim>\<open>df.shape[0]\<close> and \<^verbatim>\<open>df.shape[1]\<close>.\<close>

definition shape0 :: "dataframe \<Rightarrow> nat" where
  "shape0 df = length (rows df)"

definition shape1 :: "dataframe \<Rightarrow> nat" where
  "shape1 df = length (columns df)"

text \<open>Position of the first column carrying a label.\<close>

fun index_of :: "'a \<Rightarrow> 'a list \<Rightarrow> nat option" where
  "index_of x [] = None"
| "index_of x (y # ys) = (if x = y then Some 0 else map_option Suc (index_of x ys))"

text \<open>The cell of a row under a label of the frame \<open>cols\<close>; \<^verbatim>\<open>NaN\<close> when the frame has
  no such column.\<close>

definition cell_at :: "string list \<Rightarrow> cell list \<Rightarrow> string \<Rightarrow> cell" where
  "cell_at cols r c = (case index_of c cols of None \<Rightarrow> None | Some j \<Rightarrow> r ! j)"

text \<open>\<^verbatim>\<open>df[name]\<close>: the column as a list of cells, \<^verbatim>\<open>KeyError\<close> when the label is
  absent.\<close>

definition df_getitem :: "dataframe \<Rightarrow> string \<Rightarrow> py_error + cell list" where
  "df_getitem df name =
     (case index_of name (columns df) of
        None \<Rightarrow> Inl (KeyError name)
      | Some j \<Rightarrow> Inr (map (\<lambda>r. r ! j) (rows df)))"

section \<open>Aggregator: \<^verbatim>\<open>AverageSpectra\<close> and \<^verbatim>\<open>AddSpectra\<close>\<close>

text \<open>Labels in order of first appearance (the column union of \<^verbatim>\<open>pd.concat\<close>, which
  does not sort).\<close>

definition unique :: "'a list \<Rightarrow> 'a list" where
  "unique xs = rev (remdups (rev xs))"

text \<open>\<^verbatim>\<open>pd.concat(objs)\<close> with its defaults (\<^verbatim>\<open>axis=0\<close>, \<^verbatim>\<open>join='outer'\<close>): the rows of
  all frames, one frame after the other, under the union of the columns; an empty list
  raises \<^verbatim>\<open>ValueError('No objects to concatenate')\<close>.\<close>

definition pd_concat :: "dataframe list \<Rightarrow> py_error + dataframe" where
  "pd_concat objs =
     (if objs = [] then Inl (ValueError ''No objects to concatenate'')
      else
        let cols = unique (concat (map columns objs))
        in Inr \<lparr>columns = cols,
                rows = concat (map (\<lambda>df. map (\<lambda>r. map (cell_at (columns df) r) cols) (rows df)) objs)\<rparr>)"

text \<open>The group keys of \<^verbatim>\<open>groupby\<close>: the distinct values of the key column in
  ascending order (\<^verbatim>\<open>sort=True\<close>), rows with a missing key dropped (\<^verbatim>\<open>dropna=True\<close>).\<close>

fun present :: "cell list \<Rightarrow> real list" where
  "present [] = []"
| "present (None # cs) = present cs"
| "present (Some v # cs) = v # present cs"

definition group_keys :: "cell list \<Rightarrow> real list" where
  "group_keys ks = sort (remdups (present ks))"

text \<open>The values of one group: the cells of the value column in the rows whose key is
  \<open>k\<close>, missing values skipped (\<^verbatim>\<open>skipna\<close>).\<close>

fun group_values :: "real \<Rightarrow> (cell \<times> cell) list \<Rightarrow> real list" where
  "group_values k [] = []"
| "group_values k ((k', c) # ps) =
     (if k' = Some k then (case c of None \<Rightarrow> [] | Some v \<Rightarrow> [v]) else []) @ group_values k ps"

text \<open>
  The arithmetic of the two reductions is pandas', carried out in the floating-point
  type of the column (\<^verbatim>\<open>float32\<close> after the downcast in \<^verbatim>\<open>LoadData\<close>, \<^verbatim>\<open>float64\<close>
  otherwise); it is not code of this program. \<open>mean_op\<close> and \<open>sum_op\<close> stand for it:
  they take the values of a non-empty group, in row order, to the value pandas
  returns. A result beyond the range of the format is not modelled. What pandas does
  with a group that has no value is written out: its \<^verbatim>\<open>mean\<close> is \<^verbatim>\<open>NaN\<close>, its \<^verbatim>\<open>sum\<close>
  is 0.
\<close>

definition np_mean :: "(real list \<Rightarrow> real) \<Rightarrow> real list \<Rightarrow> cell" where
  "np_mean mean_op vs = (if vs = [] then None else Some (mean_op vs))"

definition np_sum :: "(real list \<Rightarrow> real) \<Rightarrow> real list \<Rightarrow> cell" where
  "np_sum sum_op vs = (if vs = [] then Some 0 else Some (sum_op vs))"

text \<open>\<^verbatim>\<open>df.groupby(by, as_index=False)[col].agg()\<close>: one row per group key, the key
  first and the reduced value second.\<close>

definition groupby_agg ::
  "(real list \<Rightarrow> cell) \<Rightarrow> dataframe \<Rightarrow> string \<Rightarrow> string \<Rightarrow> py_error + dataframe" where
  "groupby_agg agg df by col =
     (case df_getitem df by of
        Inl e \<Rightarrow> Inl e
      | Inr ks \<Rightarrow>
          (case df_getitem df col of
             Inl e \<Rightarrow> Inl (KeyError (''Column not found: '' @ col))
           | Inr vs \<Rightarrow>
               Inr \<lparr>columns = [by, col],
                    rows = map (\<lambda>k. [Some k, agg (group_values k (zip ks vs))]) (group_keys ks)\<rparr>))"

definition AverageSpectra :: "(real list \<Rightarrow> real) \<Rightarrow> dataframe list \<Rightarrow> py_error + dataframe" where
  "AverageSpectra mean_op spectra =
     (case pd_concat spectra of
        Inl e \<Rightarrow> Inl e
      | Inr combined_spectra \<Rightarrow>
          groupby_agg (np_mean mean_op) combined_spectra ''wavelength'' ''intensity'')"

definition AddSpectra :: "(real list \<Rightarrow> real) \<Rightarrow> dataframe list \<Rightarrow> py_error + dataframe" where
  "AddSpectra sum_op spectra =
     (case pd_concat spectra of
        Inl e \<Rightarrow> Inl e
      | Inr combined_spectra \<Rightarrow>
          groupby_agg (np_sum sum_op) combined_spectra ''wavelength'' ''intensity'')"

text \<open>A spectrum table, as \<^verbatim>\<open>LoadData\<close> builds it: the two columns \<^verbatim>\<open>wavelength\<close> and
  \<^verbatim>\<open>intensity\<close>, every cell a number. Its samples are the (wavelength, intensity)
  pairs of its rows.\<close>

fun is_sample_row :: "cell list \<Rightarrow> bool" where
  "is_sample_row [Some w, Some i] = True"
| "is_sample_row r = False"

definition is_spectrum_table :: "dataframe \<Rightarrow> bool" where
  "is_spectrum_table df \<longleftrightarrow>
     columns df = [''wavelength'', ''intensity''] \<and> list_all is_sample_row (rows df)"

fun sample_of :: "cell list \<Rightarrow> real \<times> real" where
  "sample_of [Some w, Some i] = (w, i)"
| "sample_of r = (0, 0)"

definition samples :: "dataframe \<Rightarrow> (real \<times> real) list" where
  "samples df = map sample_of (rows df)"

text \<open>All samples of a list of tables, and the intensities recorded at one wavelength
  across them.\<close>

definition all_samples :: "dataframe list \<Rightarrow> (real \<times> real) list" where
  "all_samples spectra = concat (map samples spectra)"

definition recorded :: "dataframe list \<Rightarrow> real \<Rightarrow> real list" where
  "recorded spectra w = map snd (filter (\<lambda>s. fst s = w) (all_samples spectra))"


text \<open>Two exposures for the examples: the second shares the wavelength 500 with the
  first, which is unsorted and has a wavelength of its own.\<close>

definition table_A :: dataframe where
  "table_A = \<lparr>columns = [''wavelength'', ''intensity''],
              rows = [[Some 500, Some 10], [Some 400, Some 2]]\<rparr>"

definition table_B :: dataframe where
  "table_B = \<lparr>columns = [''wavelength'', ''intensity''], rows = [[Some 500, Some 20]]\<rparr>"

text \<open>
  Binary floating point for the examples: \<open>p\<close> significant bits (24 in \<^verbatim>\<open>float32\<close>, 53
  in \<^verbatim>\<open>float64\<close>), rounding to nearest with ties to even; the range of the exponent is
  not bounded. \<open>float_sum\<close> adds from left to right and rounds every partial sum,
  \<open>float_mean\<close> divides that sum by the number of values. On a group of one or two
  values, which is what the examples have, the compensated summation of pandas
  returns the same.
\<close>

definition round_half_even :: "real \<Rightarrow> int" where
  "round_half_even x =
     (let f = \<lfloor>x\<rfloor>; d = x - of_int f
      in if d < 1 / 2 then f else if 1 / 2 < d then f + 1 else if even f then f else f + 1)"

definition float_ulp :: "nat \<Rightarrow> real \<Rightarrow> real" where
  "float_ulp p x =
     (let k = \<lfloor>log 2 \<bar>x\<bar>\<rfloor> - int p + 1
      in if 0 \<le> k then 2 ^ nat k else 1 / 2 ^ nat (- k))"

definition float_round :: "nat \<Rightarrow> real \<Rightarrow> real" where
  "float_round p x =
     (if x = 0 then 0
      else float_ulp p x * of_int (round_half_even (x / float_ulp p x)))"

definition float_sum :: "nat \<Rightarrow> real list \<Rightarrow> real" where
  "float_sum p vs = foldl (\<lambda>s v. float_round p (s + v)) 0 vs"

definition float_mean :: "nat \<Rightarrow> real list \<Rightarrow> real" where
  "float_mean p vs = float_round p (float_sum p vs / real (length vs))"




section \<open>Corrector: \<^verbatim>\<open>ProcessDataEach\<close> and \<^verbatim>\<open>ProcessData\<close>\<close>

text \<open>
  Data frames are mutable objects, and \<^verbatim>\<open>ProcessData\<close> assigns to an attribute of its
  arguments. The corrector is therefore modelled over a store of frames: an argument
  is the address of a frame, \<^verbatim>\<open>df.copy()\<close> allocates a new frame, and every function
  returns the store it leaves behind, also when it raises.
\<close>

type_synonym addr = nat

type_synonym store = "dataframe list"

definition alloc :: "store \<Rightarrow> dataframe \<Rightarrow> store \<times> addr" where
  "alloc st df = (st @ [df], length st)"

text \<open>Subtraction of cells: \<^verbatim>\<open>NaN\<close> propagates.\<close>

fun cell_sub :: "cell \<Rightarrow> cell \<Rightarrow> cell" where
  "cell_sub (Some a) (Some b) = Some (a - b)"
| "cell_sub x y = None"

text \<open>\<^verbatim>\<open>series - array\<close>, the array being the \<^verbatim>\<open>.values\<close> of a column: positions
  are paired, an array of one element is broadcast, any other difference of lengths
  is a \<^verbatim>\<open>ValueError\<close>.\<close>

definition series_sub_array :: "cell list \<Rightarrow> cell list \<Rightarrow> py_error + cell list" where
  "series_sub_array xs ys =
     (if length ys = length xs then Inr (map2 cell_sub xs ys)
      else if length ys = 1 then Inr (map (\<lambda>x. cell_sub x (hd ys)) xs)
      else Inl (ValueError ''operands could not be broadcast together''))"

text \<open>\<^verbatim>\<open>series - series\<close>: the operands are aligned on their indexes; on two
  \<^verbatim>\<open>RangeIndex\<close>es the result has the longer length, with \<^verbatim>\<open>NaN\<close> where one operand
  has no row.\<close>

fun series_sub :: "cell list \<Rightarrow> cell list \<Rightarrow> cell list" where
  "series_sub [] ys = map (\<lambda>y. None) ys"
| "series_sub (x # xs) [] = map (\<lambda>x. None) (x # xs)"
| "series_sub (x # xs) (y # ys) = cell_sub x y # series_sub xs ys"

text \<open>\<^verbatim>\<open>df[name] = values\<close> for values of the frame's own length: an existing column
  is overwritten, a new label is appended as the last column.\<close>

definition df_setitem :: "dataframe \<Rightarrow> string \<Rightarrow> cell list \<Rightarrow> dataframe" where
  "df_setitem df name vs =
     (case index_of name (columns df) of
        None \<Rightarrow> df\<lparr>columns := columns df @ [name], rows := map2 (\<lambda>r v. r @ [v]) (rows df) vs\<rparr>
      | Some j \<Rightarrow> df\<lparr>rows := map2 (\<lambda>r v. r[j := v]) (rows df) vs\<rparr>)"

text \<open>\<^verbatim>\<open>processed_df['intensity'] -= ref['intensity'].values\<close> on the frame at address
  \<open>p\<close>.\<close>

definition isub_intensity :: "store \<Rightarrow> addr \<Rightarrow> addr \<Rightarrow> store \<times> (py_error + unit)" where
  "isub_intensity st p ref =
     (case df_getitem (st ! p) ''intensity'' of
        Inl e \<Rightarrow> (st, Inl e)
      | Inr xs \<Rightarrow>
          (case df_getitem (st ! ref) ''intensity'' of
             Inl e \<Rightarrow> (st, Inl e)
           | Inr ys \<Rightarrow>
               (case series_sub_array xs ys of
                  Inl e \<Rightarrow> (st, Inl e)
                | Inr zs \<Rightarrow> (st[p := df_setitem (st ! p) ''intensity'' zs], Inr ()))))"

text \<open>The loop of \<^verbatim>\<open>ProcessDataEach\<close> over \<^verbatim>\<open>rawdata\<close>, with the list
  \<^verbatim>\<open>processed_data\<close> as accumulator. The validation at the head of the function is
  commented out in the source and so has no counterpart here.\<close>

fun ProcessDataEach_loop ::
  "store \<Rightarrow> addr list \<Rightarrow> addr \<Rightarrow> addr \<Rightarrow> bool \<Rightarrow> bool \<Rightarrow> addr list \<Rightarrow> store \<times> (py_error + addr list)" where
  "ProcessDataEach_loop st [] background dark subtract_background subtract_dark processed_data =
     (st, Inr processed_data)"
| "ProcessDataEach_loop st (data # rest) background dark subtract_background subtract_dark processed_data =
     (case alloc st (st ! data) of
        (st1, processed_df) \<Rightarrow>
          (case (if subtract_background then isub_intensity st1 processed_df background
                 else (st1, Inr ())) of
             (st2, Inl e) \<Rightarrow> (st2, Inl e)
           | (st2, Inr u) \<Rightarrow>
               (case (if subtract_dark then isub_intensity st2 processed_df dark
                      else (st2, Inr ())) of
                  (st3, Inl e) \<Rightarrow> (st3, Inl e)
                | (st3, Inr u) \<Rightarrow>
                    ProcessDataEach_loop st3 rest background dark subtract_background subtract_dark
                      (processed_data @ [processed_df]))))"

definition ProcessDataEach ::
  "store \<Rightarrow> addr list \<Rightarrow> addr \<Rightarrow> addr \<Rightarrow> bool \<Rightarrow> bool \<Rightarrow> store \<times> (py_error + addr list)" where
  "ProcessDataEach st rawdata background dark subtract_background subtract_dark =
     ProcessDataEach_loop st rawdata background dark subtract_background subtract_dark []"

definition required_columns :: "string list" where
  "required_columns = [''wavelength'', ''intensity'']"

text \<open>The first loop of \<^verbatim>\<open>ProcessData\<close>: each frame in turn is tested for two
  columns and then has its column labels overwritten; the loop stops at the first
  frame that fails the test. The flag says whether all frames passed.\<close>

fun ProcessData_columns :: "store \<Rightarrow> addr list \<Rightarrow> store \<times> bool" where
  "ProcessData_columns st [] = (st, True)"
| "ProcessData_columns st (df # dfs) =
     (if shape1 (st ! df) \<noteq> 2 then (st, False)
      else ProcessData_columns (st[df := (st ! df)\<lparr>columns := required_columns\<rparr>]) dfs)"

text \<open>\<^verbatim>\<open>ProcessData\<close> returns the store, the lines it printed and its return value:
  \<open>None\<close> is Python's \<^verbatim>\<open>None\<close>, \<open>Some p\<close> the address of the new frame.\<close>

definition ProcessData ::
  "store \<Rightarrow> addr \<Rightarrow> addr \<Rightarrow> addr \<Rightarrow> store \<times> string list \<times> (py_error + addr option)" where
  "ProcessData st rawdata background dark =
     (case ProcessData_columns st [rawdata, background, dark] of
        (st1, False) \<Rightarrow>
          (st1, [''ERROR EXCEPTION: Data should have exactly two columns''], Inr None)
      | (st1, True) \<Rightarrow>
          if \<not> (shape0 (st1 ! rawdata) = shape0 (st1 ! background) \<and>
                 shape0 (st1 ! background) = shape0 (st1 ! dark))
          then (st1, [''ERROR EXCEPTION: Data should have the same length''], Inr None)
          else
            (case alloc st1 (st1 ! rawdata) of
               (st2, processed_data) \<Rightarrow>
                 (case df_getitem (st2 ! rawdata) ''intensity'' of
                    Inl e \<Rightarrow> (st2, [], Inl e)
                  | Inr r \<Rightarrow>
                      (case df_getitem (st2 ! background) ''intensity'' of
                         Inl e \<Rightarrow> (st2, [], Inl e)
                       | Inr b \<Rightarrow>
                           (case df_getitem (st2 ! dark) ''intensity'' of
                              Inl e \<Rightarrow> (st2, [], Inl e)
                            | Inr d \<Rightarrow>
                                (st2[processed_data :=
                                       df_setitem (st2 ! processed_data) ''intensity''
                                         (series_sub (series_sub r b) d)],
                                 [], Inr (Some processed_data)))))))"

text \<open>Frames for the examples: a raw table of five rows, a background of four rows,
  a dark of five rows, and a table whose columns carry other labels.\<close>

definition raw5 :: dataframe where
  "raw5 = \<lparr>columns = [''wavelength'', ''intensity''],
           rows = [[Some 1, Some 10], [Some 2, Some 11], [Some 3, Some 12],
                   [Some 4, Some 13], [Some 5, Some 14]]\<rparr>"

definition background4 :: dataframe where
  "background4 = \<lparr>columns = [''wavelength'', ''intensity''],
                  rows = [[Some 1, Some 1], [Some 2, Some 1], [Some 3, Some 1], [Some 4, Some 1]]\<rparr>"

definition dark5 :: dataframe where
  "dark5 = \<lparr>columns = [''wavelength'', ''intensity''],
            rows = [[Some 1, Some 2], [Some 2, Some 2], [Some 3, Some 2],
                    [Some 4, Some 2], [Some 5, Some 2]]\<rparr>"

definition counts5 :: dataframe where
  "counts5 = \<lparr>columns = [''nm'', ''counts''],
              rows = [[Some 1, Some 10], [Some 2, Some 11], [Some 3, Some 12],
                      [Some 4, Some 13], [Some 5, Some 14]]\<rparr>"

section \<open>Window selection: \<^verbatim>\<open>DefSpectrumForLines\<close>\<close>

text \<open>
  Two functions read module-level names that are not among their parameters:
  \<^verbatim>\<open>DefSpectrumForLines\<close> reads \<^verbatim>\<open>sum_spectra\<close> and \<^verbatim>\<open>DetectAndPlotLines\<close> reads
  \<^verbatim>\<open>wavelength_truncated\<close>. The module namespace is a record passed to them; a name
  that has not been assigned is \<open>None\<close>, and reading it raises \<^verbatim>\<open>NameError\<close>.
\<close>

record globals =
  sum_spectra :: "dataframe option"
  wavelength_truncated :: "real list option"

text \<open>Comparison of a cell with a number: false on \<^verbatim>\<open>NaN\<close>.\<close>

fun cell_ge :: "cell \<Rightarrow> real \<Rightarrow> bool" where
  "cell_ge None b = False"
| "cell_ge (Some a) b = (a \<ge> b)"

fun cell_le :: "cell \<Rightarrow> real \<Rightarrow> bool" where
  "cell_le None b = False"
| "cell_le (Some a) b = (a \<le> b)"

text \<open>Boolean-mask indexing \<^verbatim>\<open>a[mask]\<close> for a mask of the array's own length.\<close>

definition np_mask :: "'a list \<Rightarrow> bool list \<Rightarrow> 'a list" where
  "np_mask xs bs = map fst (filter snd (zip xs bs))"

text \<open>The parameter \<open>spectr\<close> is kept as the source has it: the body never reads it.\<close>

definition DefSpectrumForLines ::
  "globals \<Rightarrow> dataframe \<Rightarrow> real \<Rightarrow> real \<Rightarrow> py_error + (cell list \<times> cell list)" where
  "DefSpectrumForLines g spectr minwavelength maxwavelength =
     (case sum_spectra g of
        None \<Rightarrow> Inl (NameError ''sum_spectra'')
      | Some df \<Rightarrow>
          (case df_getitem df ''wavelength'' of
             Inl e \<Rightarrow> Inl e
           | Inr wavelength \<Rightarrow>
               (case df_getitem df ''intensity'' of
                  Inl e \<Rightarrow> Inl e
                | Inr intensity \<Rightarrow>
                    let in_window = map (\<lambda>w. cell_ge w minwavelength \<and> cell_le w maxwavelength) wavelength
                    in Inr (np_mask wavelength in_window, np_mask intensity in_window))))"

section \<open>Continuum normalizer: \<^verbatim>\<open>FitContinuum\<close>\<close>

text \<open>
  The result of a float division can be a number, \<^verbatim>\<open>nan\<close> or an infinity: numpy
  divides by zero with a warning, not with an exception.
\<close>

datatype npfloat = Finite real | NaN | PosInf | NegInf

definition np_divide :: "real \<Rightarrow> real \<Rightarrow> npfloat" where
  "np_divide x y =
     (if y \<noteq> 0 then Finite (x / y)
      else if x = 0 then NaN
      else if 0 < x then PosInf else NegInf)"

text \<open>\<^verbatim>\<open>np.linalg.norm\<close> of a one-dimensional array: the 2-norm.\<close>

definition linalg_norm :: "real list \<Rightarrow> real" where
  "linalg_norm xs = sqrt (sum_list (map (\<lambda>x. x ^ 2) xs))"

text \<open>\<^verbatim>\<open>a - b\<close> on two arrays, with numpy's broadcasting of an array of one
  element.\<close>

definition np_subtract :: "real list \<Rightarrow> real list \<Rightarrow> py_error + real list" where
  "np_subtract xs ys =
     (if length xs = length ys then Inr (map2 (\<lambda>x y. x - y) xs ys)
      else if length ys = 1 then Inr (map (\<lambda>x. x - hd ys) xs)
      else if length xs = 1 then Inr (map (\<lambda>y. hd xs - y) ys)
      else Inl (ValueError ''operands could not be broadcast together''))"

text \<open>
  The least-squares fit is astropy's (\<^verbatim>\<open>LinearLSQFitter\<close> on a \<^verbatim>\<open>Chebyshev1D\<close> model),
  which is not code of this program: \<open>fitter\<close> stands for it, taking the degree and
  the two arrays to the fitted curve \<^verbatim>\<open>g1_fit\<close>, or to the exception it raises. The
  branch \<^verbatim>\<open>image == True\<close> only draws and has no counterpart.
\<close>

type_synonym lsq_fitter = "int \<Rightarrow> real list \<Rightarrow> real list \<Rightarrow> py_error + (real \<Rightarrow> real)"

definition FitContinuum ::
  "lsq_fitter \<Rightarrow> int \<Rightarrow> real list \<Rightarrow> real list \<Rightarrow> py_error + npfloat list" where
  "FitContinuum fitter degree wavelength intensity =
     (case fitter degree wavelength intensity of
        Inl e \<Rightarrow> Inl e
      | Inr g1_fit \<Rightarrow>
          (case np_subtract intensity (map g1_fit wavelength) of
             Inl e \<Rightarrow> Inl e
           | Inr residual \<Rightarrow>
               Inr (map (\<lambda>x. np_divide x (linalg_norm residual)) residual)))"

text \<open>A fitter for the examples: at degree 0 the model is one constant and the
  least-squares solution is the mean of the intensities.\<close>

definition lsq_degree0 :: lsq_fitter where
  "lsq_degree0 degree wavelength intensity =
     (if degree = 0 \<and> length wavelength = length intensity \<and> intensity \<noteq> []
      then Inr (\<lambda>x. sum_list intensity / real (length intensity))
      else Inl (ValueError ''not a fit of degree 0''))"


section \<open>Line detector: the loops of \<^verbatim>\<open>DetectAndPlotLines\<close>\<close>

text \<open>\<^verbatim>\<open>np.argmin\<close>: the first position of the least element; an empty array raises
  \<^verbatim>\<open>ValueError\<close>.\<close>

fun argmin_from :: "real list \<Rightarrow> nat \<Rightarrow> nat \<Rightarrow> real \<Rightarrow> nat" where
  "argmin_from [] i best least = best"
| "argmin_from (x # xs) i best least =
     (if x < least then argmin_from xs (Suc i) i x else argmin_from xs (Suc i) best least)"

definition np_argmin :: "real list \<Rightarrow> py_error + nat" where
  "np_argmin xs =
     (case xs of
        [] \<Rightarrow> Inl (ValueError ''attempt to get argmin of an empty sequence'')
      | x # rest \<Rightarrow> Inr (argmin_from rest 1 0 x))"

text \<open>\<^verbatim>\<open>a[i]\<close> for an integer \<open>i\<close>: a negative index counts from the end, and an index
  outside \<open>-n \<le> i < n\<close> raises \<^verbatim>\<open>IndexError\<close>.\<close>

definition np_getitem :: "real list \<Rightarrow> int \<Rightarrow> py_error + real" where
  "np_getitem xs i =
     (if 0 \<le> i \<and> i < int (length xs) then Inr (xs ! nat i)
      else if i < 0 \<and> - int (length xs) \<le> i then Inr (xs ! nat (i + int (length xs)))
      else Inl IndexError)"

text \<open>\<^verbatim>\<open>np.argmin(np.abs(wavelength_truncated - line_wavelength))\<close>, reading the module's
  \<^verbatim>\<open>wavelength_truncated\<close>.\<close>

definition snap_index :: "globals \<Rightarrow> real \<Rightarrow> py_error + nat" where
  "snap_index g line_wavelength =
     (case wavelength_truncated g of
        None \<Rightarrow> Inl (NameError ''wavelength_truncated'')
      | Some wt \<Rightarrow> np_argmin (map (\<lambda>w. \<bar>w - line_wavelength\<bar>) wt))"

text \<open>
  The body shared by the two loops, which differ in the depth cutoff and in the offset
  of the neighbours only (\<^verbatim>\<open>threshold\<close> and 10 for the catalog, 0.02 and 1 for the
  telluric lines). The result says whether the line is recorded. \<^verbatim>\<open>and\<close> evaluates
  its right operand only when the left one holds.
\<close>

definition line_test :: "globals \<Rightarrow> real list \<Rightarrow> real \<Rightarrow> real \<Rightarrow> int \<Rightarrow> py_error + bool" where
  "line_test g spectra line_wavelength cutoff offset =
     (case snap_index g line_wavelength of
        Inl e \<Rightarrow> Inl e
      | Inr index \<Rightarrow>
          (case np_getitem spectra (int index) of
             Inl e \<Rightarrow> Inl e
           | Inr flux \<Rightarrow>
               let depth = - flux in
               if depth \<ge> cutoff then
                 (case np_getitem spectra (int index - offset) of
                    Inl e \<Rightarrow> Inl e
                  | Inr before \<Rightarrow>
                      if flux < before then
                        (case np_getitem spectra (int index + offset) of
                           Inl e \<Rightarrow> Inl e
                         | Inr after \<Rightarrow> Inr (flux < after))
                      else Inr False)
               else Inr False))"

text \<open>A dictionary in insertion order; \<^verbatim>\<open>d[k] = v\<close> overwrites the value of a key that
  is present and appends a key that is not.\<close>

fun dict_set :: "('k \<times> 'v) list \<Rightarrow> 'k \<Rightarrow> 'v \<Rightarrow> ('k \<times> 'v) list" where
  "dict_set [] k v = [(k, v)]"
| "dict_set ((k', v') # d) k v = (if k' = k then (k, v) # d else (k', v') # dict_set d k v)"

fun catalog_loop ::
  "globals \<Rightarrow> real list \<Rightarrow> (string \<times> real) list \<Rightarrow> real \<Rightarrow> (string \<times> real) list
     \<Rightarrow> py_error + (string \<times> real) list" where
  "catalog_loop g spectra [] threshold detected_lines = Inr detected_lines"
| "catalog_loop g spectra ((line_name, line_wavelength) # rest) threshold detected_lines =
     (case line_test g spectra line_wavelength threshold 10 of
        Inl e \<Rightarrow> Inl e
      | Inr hit \<Rightarrow>
          catalog_loop g spectra rest threshold
            (if hit then dict_set detected_lines line_name line_wavelength else detected_lines))"

fun telluric_loop ::
  "globals \<Rightarrow> real list \<Rightarrow> real list \<Rightarrow> (real \<times> real) list \<Rightarrow> py_error + (real \<times> real) list" where
  "telluric_loop g spectra [] telluric_lines_d = Inr telluric_lines_d"
| "telluric_loop g spectra (line_wavelength # rest) telluric_lines_d =
     (case line_test g spectra line_wavelength 0.02 1 of
        Inl e \<Rightarrow> Inl e
      | Inr hit \<Rightarrow>
          telluric_loop g spectra rest
            (if hit then dict_set telluric_lines_d line_wavelength line_wavelength
             else telluric_lines_d))"

text \<open>
  The detection part of \<^verbatim>\<open>DetectAndPlotLines\<close>: the two dictionaries it hands to the
  plotting library, or the exception that ends the call before. The parameter
  \<open>wavelength\<close> is kept as the source has it: the body never reads it. The call of
  the plotting library names \<^verbatim>\<open>wavelength_truncated\<close> as its first argument, so the
  name is read once more after the loops. The drawing itself, and the parameters that
  only serve it, are not modelled.
\<close>

definition DetectAndPlotLines ::
  "globals \<Rightarrow> real list \<Rightarrow> real list \<Rightarrow> (string \<times> real) list \<Rightarrow> (string \<times> real list) list \<Rightarrow> real
     \<Rightarrow> py_error + ((string \<times> real) list \<times> (real \<times> real) list)" where
  "DetectAndPlotLines g spectra wavelength spectral_lines telluric_lines threshold =
     (case catalog_loop g spectra spectral_lines threshold [] of
        Inl e \<Rightarrow> Inl e
      | Inr detected_lines \<Rightarrow>
          (case map_of telluric_lines ''TL'' of
             None \<Rightarrow> Inl (KeyError ''TL'')
           | Some tl_wavelengths \<Rightarrow>
               (case telluric_loop g spectra tl_wavelengths [] of
                  Inl e \<Rightarrow> Inl e
                | Inr telluric_lines_d \<Rightarrow>
                    (case wavelength_truncated g of
                       None \<Rightarrow> Inl (NameError ''wavelength_truncated'')
                     | Some wt \<Rightarrow> Inr (detected_lines, telluric_lines_d)))))"

text \<open>The raw table of five rows with the intensities of \<open>dark5\<close> subtracted twice.\<close>

definition corrected5 :: dataframe where
  "corrected5 = \<lparr>columns = [''wavelength'', ''intensity''],
                 rows = [[Some 1, Some 6], [Some 2, Some 7], [Some 3, Some 8],
                         [Some 4, Some 9], [Some 5, Some 10]]\<rparr>"

text \<open>Windows for the examples of the detector: five and twelve wavelengths in the
  module's \<^verbatim>\<open>wavelength_truncated\<close>, and residuals with one dip in the middle, at the
  first or at the last sample.\<close>

definition g5 :: globals where
  "g5 = \<lparr>sum_spectra = None, wavelength_truncated = Some [1, 2, 3, 4, 5]\<rparr>"

definition g12 :: globals where
  "g12 = \<lparr>sum_spectra = None,
          wavelength_truncated = Some [1, 2, 3, 4, 5, 6, 7, 8, 9, 10, 11, 12]\<rparr>"

definition dip_middle :: "real list" where
  "dip_middle = [0, 0, - 0.05, 0, 0]"

definition dip_first :: "real list" where
  "dip_first = [- 1, 0, 0, 0, 0]"

definition dip_last :: "real list" where
  "dip_last = [0, 0, 0, 0, - 1]"

definition dip_first12 :: "real list" where
  "dip_first12 = [- 1, 0, 0, 0, 0, 0, 0, 0, 0, 0, 0, 0]"

definition dip_last12 :: "real list" where
  "dip_last12 = [0, 0, 0, 0, 0, 0, 0, 0, 0, 0, 0, - 1]"

section \<open>Properties of the aggregator\<close>

lemma remdups_two_tail:
  "a \<noteq> b \<Longrightarrow> set ys \<subseteq> {a, b} \<Longrightarrow> remdups (ys @ [b, a]) = [b, a]"
  by (induction ys) auto

lemma unique_two:
  assumes "a \<noteq> b" and "set rest \<subseteq> {a, b}"
  shows "unique (a # b # rest) = [a, b]"
proof -
  have "set (rev rest) \<subseteq> {a, b}" using assms(2) by simp
  with assms(1) have "remdups (rev rest @ [b, a]) = [b, a]"
    by (rule remdups_two_tail)
  then show ?thesis by (simp add: unique_def)
qed

lemma concat_columns_spectrum:
  "list_all is_spectrum_table spectra \<Longrightarrow>
     set (concat (map columns spectra)) \<subseteq> {''wavelength'', ''intensity''}"
  by (induction spectra) (auto simp: is_spectrum_table_def)

lemma columns_union_spectrum:
  assumes "spectra \<noteq> []" and "list_all is_spectrum_table spectra"
  shows "unique (concat (map columns spectra)) = [''wavelength'', ''intensity'']"
proof (cases spectra)
  case Nil
  with assms(1) show ?thesis by simp
next
  case (Cons df rest)
  with assms(2) have c: "columns df = [''wavelength'', ''intensity'']"
    and r: "list_all is_spectrum_table rest"
    by (simp_all add: is_spectrum_table_def)
  have "set (concat (map columns rest)) \<subseteq> {''wavelength'', ''intensity''}"
    using r by (rule concat_columns_spectrum)
  then show ?thesis
    using Cons c by (simp add: unique_two)
qed

lemma sample_row_cases:
  "is_sample_row r \<Longrightarrow> \<exists>w i. r = [Some w, Some i]"
  by (induction r rule: is_sample_row.induct) simp_all

lemma sample_row_reindex:
  "is_sample_row r \<Longrightarrow>
     [cell_at [''wavelength'', ''intensity''] r ''wavelength'',
      cell_at [''wavelength'', ''intensity''] r ''intensity''] = r"
  by (auto dest!: sample_row_cases simp: cell_at_def)

lemma rows_reindex_spectrum:
  "list_all is_sample_row rs \<Longrightarrow>
     map (\<lambda>r. [cell_at [''wavelength'', ''intensity''] r ''wavelength'',
               cell_at [''wavelength'', ''intensity''] r ''intensity'']) rs = rs"
  by (induction rs) (simp_all add: sample_row_reindex)

lemma concat_rows_spectrum:
  "list_all is_spectrum_table spectra \<Longrightarrow>
     concat (map (\<lambda>df. map (\<lambda>r. [cell_at (columns df) r ''wavelength'',
                                    cell_at (columns df) r ''intensity'']) (rows df)) spectra)
       = concat (map rows spectra)"
  by (induction spectra) (simp_all add: is_spectrum_table_def rows_reindex_spectrum)

lemma pd_concat_spectrum:
  assumes "spectra \<noteq> []" and "list_all is_spectrum_table spectra"
  shows "pd_concat spectra =
           Inr \<lparr>columns = [''wavelength'', ''intensity''], rows = concat (map rows spectra)\<rparr>"
  using assms
  by (simp add: pd_concat_def columns_union_spectrum concat_rows_spectrum)

lemma sample_rows_concat:
  "list_all is_spectrum_table spectra \<Longrightarrow> list_all is_sample_row (concat (map rows spectra))"
  by (induction spectra) (simp_all add: is_spectrum_table_def)

lemma wavelength_column:
  "list_all is_sample_row rs \<Longrightarrow> map (\<lambda>r. r ! 0) rs = map (\<lambda>r. Some (fst (sample_of r))) rs"
  by (induction rs) (auto dest!: sample_row_cases)

lemma intensity_column:
  "list_all is_sample_row rs \<Longrightarrow> map (\<lambda>r. r ! Suc 0) rs = map (\<lambda>r. Some (snd (sample_of r))) rs"
  by (induction rs) (auto dest!: sample_row_cases)

lemma present_Some: "present (map (\<lambda>r. Some (f r)) rs) = map f rs"
  by (induction rs) simp_all

lemma group_values_samples:
  "group_values k (zip (map (\<lambda>r. Some (fst (g r))) rs) (map (\<lambda>r. Some (snd (g r))) rs))
     = map snd (filter (\<lambda>s. fst s = k) (map g rs))"
  by (induction rs) simp_all

lemma all_samples_rows: "all_samples spectra = map sample_of (concat (map rows spectra))"
  by (induction spectra) (simp_all add: all_samples_def samples_def)

lemma groupby_spectrum:
  assumes "list_all is_sample_row rs"
  shows "groupby_agg agg \<lparr>columns = [''wavelength'', ''intensity''], rows = rs\<rparr>
            ''wavelength'' ''intensity''
         = Inr \<lparr>columns = [''wavelength'', ''intensity''],
                rows = map (\<lambda>k. [Some k, agg (map snd (filter (\<lambda>s. fst s = k) (map sample_of rs)))])
                         (sort (remdups (map (\<lambda>r. fst (sample_of r)) rs)))\<rparr>"
  using assms
  by (simp add: groupby_agg_def df_getitem_def wavelength_column intensity_column
      group_keys_def present_Some group_values_samples)

lemma aggregate_rows:
  assumes "spectra \<noteq> []" and "list_all is_spectrum_table spectra"
  shows "(case pd_concat spectra of Inl e \<Rightarrow> Inl e
          | Inr combined \<Rightarrow> groupby_agg agg combined ''wavelength'' ''intensity'')
         = Inr \<lparr>columns = [''wavelength'', ''intensity''],
                rows = map (\<lambda>k. [Some k, agg (recorded spectra k)])
                         (sort (remdups (map fst (all_samples spectra))))\<rparr>"
proof -
  have rs: "list_all is_sample_row (concat (map rows spectra))"
    using assms(2) by (rule sample_rows_concat)
  show ?thesis
    by (simp add: pd_concat_spectrum [OF assms] groupby_spectrum [OF rs]
        recorded_def all_samples_rows comp_def)
qed















lemma round_half_even_int: "round_half_even (of_int z) = z"
  by (simp add: round_half_even_def)

lemma log2_less_power: "0 < y \<Longrightarrow> y < 2 ^ m \<Longrightarrow> log 2 y < real m"
  by (simp add: log_less_iff powr_realpow)


text \<open>An integer below \<open>2 ^ p\<close> is a value of the format: rounding leaves it as it is.\<close>

lemma float_round_small_int:
  assumes "x \<in> \<int>" and "\<bar>x\<bar> < 2 ^ p"
  shows "float_round p x = x"
proof (cases "x = 0")
  case True
  then show ?thesis by (simp add: float_round_def)
next
  case False
  from assms(1) obtain z where z: "x = of_int z" by (auto elim: Ints_cases)
  define k where "k = \<lfloor>log 2 \<bar>x\<bar>\<rfloor> - int p + 1"
  have pos: "0 < \<bar>x\<bar>" using False by simp
  have "log 2 \<bar>x\<bar> < real p"
    using pos assms(2) by (rule log2_less_power)
  then have "\<lfloor>log 2 \<bar>x\<bar>\<rfloor> < int p"
    by (simp add: floor_less_iff)
  then have k0: "k \<le> 0" by (simp add: k_def)
  have unfold: "float_round p x
      = float_ulp p x * of_int (round_half_even (x / float_ulp p x))"
    using False by (simp add: float_round_def)
  show ?thesis
  proof (cases "k = 0")
    case True
    then have u: "float_ulp p x = 1"
      by (simp add: float_ulp_def k_def [symmetric])
    have "x / float_ulp p x = of_int z"
      by (simp add: u) (simp add: z)
    then have r: "round_half_even (x / float_ulp p x) = z"
      by (simp only: round_half_even_int)
    have "float_ulp p x * of_int (round_half_even (x / float_ulp p x)) = 1 * of_int z"
      by (subst r) (simp only: u)
    also have "\<dots> = x" by (simp add: z)
    finally show ?thesis by (simp only: unfold)
  next
    case neg: False
    with k0 have kn: "\<not> 0 \<le> k" by simp
    define j where "j = nat (- k)"
    have u: "float_ulp p x = 1 / 2 ^ j"
      using kn by (simp add: float_ulp_def k_def [symmetric] j_def Let_def)
    have "x / float_ulp p x = of_int (z * 2 ^ j)"
      by (simp add: u) (simp add: z)
    then have r: "round_half_even (x / float_ulp p x) = z * 2 ^ j"
      by (simp only: round_half_even_int)
    have "float_ulp p x * of_int (round_half_even (x / float_ulp p x))
        = (1 / 2 ^ j) * of_int (z * 2 ^ j)"
      by (subst r) (simp only: u)
    also have "\<dots> = x" by (simp add: z)
    finally show ?thesis by (simp only: unfold)
  qed
qed




lemma float64_exact_examples:
  "float_sum 53 [10, 20] = 30" "float_sum 53 [2] = 2"
  "float_mean 53 [10, 20] = 15" "float_mean 53 [2] = 2"
  by (simp_all add: float_mean_def float_sum_def float_round_small_int)

lemma average_A_B:
  "AverageSpectra (float_mean 53) [table_A, table_B]
     = Inr \<lparr>columns = [''wavelength'', ''intensity''],
            rows = [[Some 400, Some 2], [Some 500, Some 15]]\<rparr>"
  by (simp add: AverageSpectra_def pd_concat_def unique_def cell_at_def groupby_agg_def
      df_getitem_def group_keys_def np_mean_def table_A_def table_B_def
      float64_exact_examples)





text \<open>
  Claim C8. On the empty list both aggregations raise the \<^verbatim>\<open>ValueError\<close> of
  \<^verbatim>\<open>pd.concat\<close> for an empty input, and return no table.
\<close>

theorem aggregate_empty_input:
  "AverageSpectra mean_op [] = Inl (ValueError ''No objects to concatenate'') \<and>
   AddSpectra sum_op [] = Inl (ValueError ''No objects to concatenate'') \<and>
   (\<nexists>out. AverageSpectra mean_op [] = Inr out) \<and> (\<nexists>out. AddSpectra sum_op [] = Inr out)"
  by (simp add: AverageSpectra_def AddSpectra_def pd_concat_def)

text \<open>
  Claim C9. For a non-empty list of spectrum tables, sorted or not, the wavelength
  column of the table returned by \<^verbatim>\<open>AverageSpectra\<close> and by \<^verbatim>\<open>AddSpectra\<close> is in
  ascending order (and has no repeated value).
\<close>

theorem aggregate_sorted:
  assumes ne: "spectra \<noteq> []" and tabs: "list_all is_spectrum_table spectra"
  shows "\<exists>avg add ks.
           AverageSpectra mean_op spectra = Inr avg \<and> AddSpectra sum_op spectra = Inr add \<and>
           df_getitem avg ''wavelength'' = Inr (map Some ks) \<and>
           df_getitem add ''wavelength'' = Inr (map Some ks) \<and>
           sorted ks \<and> sorted_wrt (<) ks"
proof -
  define ks where "ks = sort (remdups (map fst (all_samples spectra)))"
  have s: "sorted ks" and d: "distinct ks"
    by (simp_all add: ks_def)
  have st: "sorted_wrt (<) ks"
    using s d by (simp add: strict_sorted_iff)
  define avg where "avg = \<lparr>columns = [''wavelength'', ''intensity''],
      rows = map (\<lambda>k. [Some k, np_mean mean_op (recorded spectra k)]) ks\<rparr>"
  define add where "add = \<lparr>columns = [''wavelength'', ''intensity''],
      rows = map (\<lambda>k. [Some k, np_sum sum_op (recorded spectra k)]) ks\<rparr>"
  have r_avg: "AverageSpectra mean_op spectra = Inr avg"
    unfolding AverageSpectra_def avg_def ks_def by (rule aggregate_rows [OF ne tabs])
  have r_add: "AddSpectra sum_op spectra = Inr add"
    unfolding AddSpectra_def add_def ks_def by (rule aggregate_rows [OF ne tabs])
  have c_avg: "df_getitem avg ''wavelength'' = Inr (map Some ks)"
    by (simp add: df_getitem_def avg_def comp_def)
  have c_add: "df_getitem add ''wavelength'' = Inr (map Some ks)"
    by (simp add: df_getitem_def add_def comp_def)
  show ?thesis
    using s st r_avg r_add c_avg c_add by blast
qed

theorem aggregate_sorted_witness:
  "[table_A, table_B] \<noteq> [] \<and> list_all is_spectrum_table [table_A, table_B] \<and>
   (\<exists>avg add ks.
      AverageSpectra (float_mean 53) [table_A, table_B] = Inr avg \<and>
      AddSpectra (float_sum 53) [table_A, table_B] = Inr add \<and>
      df_getitem avg ''wavelength'' = Inr (map Some ks) \<and>
      df_getitem add ''wavelength'' = Inr (map Some ks) \<and>
      sorted ks \<and> sorted_wrt (<) ks \<and> ks = [400, 500])"
proof -
  have h1: "[table_A, table_B] \<noteq> []" by simp
  have h2: "list_all is_spectrum_table [table_A, table_B]"
    by (simp add: is_spectrum_table_def table_A_def table_B_def)
  from aggregate_sorted [OF h1 h2, of "float_mean 53" "float_sum 53"]
  obtain avg add ks where
    a: "AverageSpectra (float_mean 53) [table_A, table_B] = Inr avg" and
    b: "AddSpectra (float_sum 53) [table_A, table_B] = Inr add" and
    c: "df_getitem avg ''wavelength'' = Inr (map Some ks)" and
    d: "df_getitem add ''wavelength'' = Inr (map Some ks)" and
    s: "sorted ks" "sorted_wrt (<) ks"
    by (elim exE conjE) (rule that; assumption)
  from a have e: "avg = \<lparr>columns = [''wavelength'', ''intensity''],
      rows = [[Some 400, Some 2], [Some 500, Some 15]]\<rparr>"
    by (simp add: average_A_B)
  from c have "map Some ks = [Some 400, Some (500::real)]"
    by (simp add: e df_getitem_def)
  then have k: "ks = [400, 500]"
    by auto
  have "\<exists>avg add ks.
      AverageSpectra (float_mean 53) [table_A, table_B] = Inr avg \<and>
      AddSpectra (float_sum 53) [table_A, table_B] = Inr add \<and>
      df_getitem avg ''wavelength'' = Inr (map Some ks) \<and>
      df_getitem add ''wavelength'' = Inr (map Some ks) \<and>
      sorted ks \<and> sorted_wrt (<) ks \<and> ks = [400, 500]"
    apply (rule exI [of _ avg])
    apply (rule exI [of _ add])
    apply (rule exI [of _ ks])
    apply (intro conjI)
    apply (fact a b c d s k)+
    done
  with h1 h2 show ?thesis
    by (intro conjI)
qed

section \<open>Properties of the corrector\<close>

lemma nth_update_other: "a \<noteq> p \<Longrightarrow> (st[p := x]) ! a = st ! a"
  by simp

lemma isub_intensity_frame:
  assumes "isub_intensity st p ref = (st', r)"
  shows "length st' = length st \<and> (\<forall>a. a \<noteq> p \<longrightarrow> st' ! a = st ! a)"
  using assms
  by (auto simp: isub_intensity_def split: sum.splits)

lemma alloc_frame:
  assumes "alloc st df = (st1, p)"
  shows "p = length st \<and> length st1 = Suc (length st) \<and> st1 ! p = df \<and>
         (\<forall>a<length st. st1 ! a = st ! a)"
  using assms by (auto simp: alloc_def nth_append)

lemma step_frame:
  assumes "(if c then isub_intensity st p ref else (st, Inr ())) = (st', r)"
  shows "length st' = length st \<and> (\<forall>a. a \<noteq> p \<longrightarrow> st' ! a = st ! a)"
proof (cases c)
  case True
  with assms show ?thesis using isub_intensity_frame [of st p ref st' r] by simp
next
  case False
  with assms show ?thesis by simp
qed

lemma ProcessDataEach_loop_frame:
  "ProcessDataEach_loop st raws bg dk sb sd acc = (st', res) \<Longrightarrow>
     length st \<le> length st' \<and> (\<forall>a<length st. st' ! a = st ! a) \<and>
     (\<forall>outs. res = Inr outs \<longrightarrow>
        (\<exists>new. outs = acc @ new \<and> length new = length raws \<and>
               (\<forall>p\<in>set new. length st \<le> p \<and> p < length st')))"
proof (induction raws arbitrary: st acc)
  case Nil
  then show ?case by auto
next
  case (Cons data rest)
  obtain st1 p where al: "alloc st (st ! data) = (st1, p)"
    by (cases "alloc st (st ! data)")
  from alloc_frame [OF al] have p: "p = length st" and l1: "length st1 = Suc (length st)"
    and f1: "\<forall>a<length st. st1 ! a = st ! a" by simp_all
  obtain st2 r2 where s2: "(if sb then isub_intensity st1 p bg else (st1, Inr ())) = (st2, r2)"
    by (cases "if sb then isub_intensity st1 p bg else (st1, Inr ())")
  from step_frame [OF s2] have l2: "length st2 = length st1"
    and f2: "\<forall>a. a \<noteq> p \<longrightarrow> st2 ! a = st1 ! a" by simp_all
  show ?case
  proof (cases r2)
    case (Inl e)
    with Cons.prems al s2 have "st' = st2" "res = Inl e" by simp_all
    with l1 l2 f1 f2 p show ?thesis by auto
  next
    case (Inr u)
    obtain st3 r3 where s3: "(if sd then isub_intensity st2 p dk else (st2, Inr ())) = (st3, r3)"
      by (cases "if sd then isub_intensity st2 p dk else (st2, Inr ())")
    from step_frame [OF s3] have l3: "length st3 = length st2"
      and f3: "\<forall>a. a \<noteq> p \<longrightarrow> st3 ! a = st2 ! a" by simp_all
    have keep: "\<forall>a<length st. st3 ! a = st ! a"
      using f1 f2 f3 p by auto
    show ?thesis
    proof (cases r3)
      case (Inl e)
      with Cons.prems al s2 s3 \<open>r2 = Inr u\<close> have "st' = st3" "res = Inl e" by simp_all
      with l1 l2 l3 keep show ?thesis by auto
    next
      case (Inr u')
      with Cons.prems al s2 s3 \<open>r2 = Inr u\<close>
      have rec: "ProcessDataEach_loop st3 rest bg dk sb sd (acc @ [p]) = (st', res)" by simp
      from Cons.IH [OF rec] have
        g1: "length st3 \<le> length st'" and
        g2: "\<forall>a<length st3. st' ! a = st3 ! a" and
        g3: "\<forall>outs. res = Inr outs \<longrightarrow>
              (\<exists>new. outs = (acc @ [p]) @ new \<and> length new = length rest \<and>
                     (\<forall>q\<in>set new. length st3 \<le> q \<and> q < length st'))"
        by simp_all
      have a1: "length st \<le> length st'" using g1 l1 l2 l3 by simp
      have a2: "\<forall>a<length st. st' ! a = st ! a" using g2 keep l1 l2 l3 by simp
      have a3: "\<forall>outs. res = Inr outs \<longrightarrow>
              (\<exists>new. outs = acc @ new \<and> length new = length (data # rest) \<and>
                     (\<forall>q\<in>set new. length st \<le> q \<and> q < length st'))"
      proof (intro allI impI)
        fix outs assume "res = Inr outs"
        with g3 obtain new where n: "outs = (acc @ [p]) @ new" "length new = length rest"
          "\<forall>q\<in>set new. length st3 \<le> q \<and> q < length st'" by blast
        have "outs = acc @ (p # new)" using n(1) by simp
        moreover have "length (p # new) = length (data # rest)" using n(2) by simp
        moreover have "\<forall>q\<in>set (p # new). length st \<le> q \<and> q < length st'"
          using n(3) p g1 l1 l2 l3 by auto
        ultimately show "\<exists>new. outs = acc @ new \<and> length new = length (data # rest) \<and>
                     (\<forall>q\<in>set new. length st \<le> q \<and> q < length st')" by blast
      qed
      show ?thesis using a1 a2 a3 by blast
    qed
  qed
qed

lemma ProcessDataEach_loop_off:
  "\<forall>a\<in>set raws. a < length st \<Longrightarrow>
     ProcessDataEach_loop st raws bg dk False False acc
       = (st @ map ((!) st) raws, Inr (acc @ [length st ..< length st + length raws]))"
proof (induction raws arbitrary: st acc)
  case Nil
  then show ?case by simp
next
  case (Cons data rest)
  let ?st1 = "st @ [st ! data]"
  have v: "\<forall>a\<in>set rest. a < length ?st1" using Cons.prems by auto
  have same: "map ((!) ?st1) rest = map ((!) st) rest"
    using Cons.prems by (auto simp: nth_append)
  have "[length st ..< length st + Suc (length rest)]
             = length st # [Suc (length st) ..< length st + Suc (length rest)]"
    by (rule upt_conv_Cons) simp
  then have idx: "[length st ..< length st + length (data # rest)]
             = length st # [length ?st1 ..< length ?st1 + length rest]"
    by simp
  show ?case
    using Cons.IH [OF v, of "acc @ [length st]"] same idx
    by (simp add: alloc_def)
qed

lemma update_shape1:
  "shape1 x = shape1 (st ! a) \<Longrightarrow> shape1 ((st[a := x]) ! b) = shape1 (st ! b)"
  by (cases "a < length st") (auto simp: nth_list_update list_update_beyond not_less)

lemma update_shape0:
  "shape0 x = shape0 (st ! a) \<Longrightarrow> shape0 ((st[a := x]) ! b) = shape0 (st ! b)"
  by (cases "a < length st") (auto simp: nth_list_update list_update_beyond not_less)

lemma update_rows:
  "rows x = rows (st ! a) \<Longrightarrow> rows ((st[a := x]) ! b) = rows (st ! b)"
  by (cases "a < length st") (auto simp: nth_list_update list_update_beyond not_less)

lemma rename_keeps:
  "shape1 (st ! df) = 2 \<Longrightarrow>
     shape1 ((st[df := (st ! df)\<lparr>columns := required_columns\<rparr>]) ! b) = shape1 (st ! b) \<and>
     shape0 ((st[df := (st ! df)\<lparr>columns := required_columns\<rparr>]) ! b) = shape0 (st ! b) \<and>
     rows ((st[df := (st ! df)\<lparr>columns := required_columns\<rparr>]) ! b) = rows (st ! b)"
proof -
  let ?x = "(st ! df)\<lparr>columns := required_columns\<rparr>"
  assume "shape1 (st ! df) = 2"
  then have "shape1 ?x = shape1 (st ! df)"
    by (simp add: shape1_def required_columns_def)
  moreover have "shape0 ?x = shape0 (st ! df)" "rows ?x = rows (st ! df)"
    by (simp_all add: shape0_def)
  ultimately show ?thesis
    using update_shape1 [of ?x st df b] update_shape0 [of ?x st df b] update_rows [of ?x st df b]
    by simp
qed

lemma ProcessData_columns_frame:
  "ProcessData_columns st dfs = (st', ok) \<Longrightarrow>
     length st' = length st \<and>
     (ok \<longleftrightarrow> (\<forall>df\<in>set dfs. shape1 (st ! df) = 2)) \<and>
     (\<forall>b. shape1 (st' ! b) = shape1 (st ! b) \<and> shape0 (st' ! b) = shape0 (st ! b) \<and>
          rows (st' ! b) = rows (st ! b) \<and>
          (columns (st' ! b) = columns (st ! b) \<or> columns (st' ! b) = required_columns) \<and>
          (b \<notin> set dfs \<longrightarrow> st' ! b = st ! b))"
proof (induction dfs arbitrary: st)
  case Nil
  then show ?case by auto
next
  case (Cons df dfs)
  show ?case
  proof (cases "shape1 (st ! df) = 2")
    case False
    with Cons.prems show ?thesis by auto
  next
    case True
    let ?st1 = "st[df := (st ! df)\<lparr>columns := required_columns\<rparr>]"
    from True Cons.prems have rec: "ProcessData_columns ?st1 dfs = (st', ok)" by simp
    note ih = Cons.IH [OF rec]
    note k = rename_keeps [OF True]
    have cols: "\<And>b. columns (?st1 ! b) = columns (st ! b) \<or> columns (?st1 ! b) = required_columns"
      by (cases "df < length st") (auto simp: nth_list_update list_update_beyond not_less)
    have other: "\<And>b. b \<noteq> df \<Longrightarrow> ?st1 ! b = st ! b"
      by simp
    have l: "length st' = length st" using ih by simp
    have o: "ok \<longleftrightarrow> (\<forall>d\<in>set (df # dfs). shape1 (st ! d) = 2)"
      using ih True k by simp
    have b: "\<forall>b. shape1 (st' ! b) = shape1 (st ! b) \<and> shape0 (st' ! b) = shape0 (st ! b) \<and>
          rows (st' ! b) = rows (st ! b) \<and>
          (columns (st' ! b) = columns (st ! b) \<or> columns (st' ! b) = required_columns) \<and>
          (b \<notin> set (df # dfs) \<longrightarrow> st' ! b = st ! b)"
    proof
      fix b
      from ih have i: "shape1 (st' ! b) = shape1 (?st1 ! b)" "shape0 (st' ! b) = shape0 (?st1 ! b)"
        "rows (st' ! b) = rows (?st1 ! b)"
        "columns (st' ! b) = columns (?st1 ! b) \<or> columns (st' ! b) = required_columns"
        "b \<notin> set dfs \<longrightarrow> st' ! b = ?st1 ! b" by simp_all
      show "shape1 (st' ! b) = shape1 (st ! b) \<and> shape0 (st' ! b) = shape0 (st ! b) \<and>
          rows (st' ! b) = rows (st ! b) \<and>
          (columns (st' ! b) = columns (st ! b) \<or> columns (st' ! b) = required_columns) \<and>
          (b \<notin> set (df # dfs) \<longrightarrow> st' ! b = st ! b)"
        using i k [of b] cols [of b] other [of b] by auto
    qed
    show ?thesis using l o b by blast
  qed
qed

lemma ProcessData_columns_renamed:
  "ProcessData_columns st dfs = (st', True) \<Longrightarrow> df \<in> set dfs \<Longrightarrow> df < length st \<Longrightarrow>
     columns (st' ! df) = required_columns"
proof (induction dfs arbitrary: st)
  case Nil
  then show ?case by simp
next
  case (Cons d dfs)
  let ?st1 = "st[d := (st ! d)\<lparr>columns := required_columns\<rparr>]"
  from Cons.prems(1) have two: "shape1 (st ! d) = 2"
    by (auto split: if_splits)
  with Cons.prems(1) have rec: "ProcessData_columns ?st1 dfs = (st', True)" by simp
  show ?case
  proof (cases "df \<in> set dfs")
    case True
    with Cons.IH [OF rec] Cons.prems(3) show ?thesis by simp
  next
    case False
    with Cons.prems(2) have "df = d" by simp
    with Cons.prems(3) have "columns (?st1 ! df) = required_columns" by simp
    moreover from ProcessData_columns_frame [OF rec] False have "st' ! df = ?st1 ! df" by blast
    ultimately show ?thesis by simp
  qed
qed

lemma getitem_intensity_required:
  "columns df = required_columns \<Longrightarrow>
     df_getitem df ''intensity'' = Inr (map (\<lambda>r. r ! Suc 0) (rows df))"
  by (simp add: df_getitem_def required_columns_def)

lemma ProcessData_cases:
  assumes "ProcessData_columns st [rawdata, background, dark] = (st1, ok)"
  shows "ProcessData st rawdata background dark =
     (if \<not> ok then (st1, [''ERROR EXCEPTION: Data should have exactly two columns''], Inr None)
      else if \<not> (shape0 (st1 ! rawdata) = shape0 (st1 ! background) \<and>
                    shape0 (st1 ! background) = shape0 (st1 ! dark))
      then (st1, [''ERROR EXCEPTION: Data should have the same length''], Inr None)
      else
        (case df_getitem ((st1 @ [st1 ! rawdata]) ! rawdata) ''intensity'' of
           Inl e \<Rightarrow> (st1 @ [st1 ! rawdata], [], Inl e)
         | Inr r \<Rightarrow>
             (case df_getitem ((st1 @ [st1 ! rawdata]) ! background) ''intensity'' of
                Inl e \<Rightarrow> (st1 @ [st1 ! rawdata], [], Inl e)
              | Inr b \<Rightarrow>
                  (case df_getitem ((st1 @ [st1 ! rawdata]) ! dark) ''intensity'' of
                     Inl e \<Rightarrow> (st1 @ [st1 ! rawdata], [], Inl e)
                   | Inr d \<Rightarrow>
                       ((st1 @ [st1 ! rawdata])[length st1 :=
                           df_setitem ((st1 @ [st1 ! rawdata]) ! length st1) ''intensity''
                             (series_sub (series_sub r b) d)],
                        [], Inr (Some (length st1)))))))"
  unfolding ProcessData_def assms alloc_def by (cases ok) simp_all

lemma ProcessData_rejects:
  assumes "\<not> (shape1 (st ! rawdata) = 2 \<and> shape1 (st ! background) = 2 \<and>
              shape1 (st ! dark) = 2 \<and>
              shape0 (st ! rawdata) = shape0 (st ! background) \<and>
              shape0 (st ! background) = shape0 (st ! dark))"
  shows "\<exists>st'. ProcessData st rawdata background dark
                 = (st',
                    [if shape1 (st ! rawdata) = 2 \<and> shape1 (st ! background) = 2 \<and>
                        shape1 (st ! dark) = 2
                     then ''ERROR EXCEPTION: Data should have the same length''
                     else ''ERROR EXCEPTION: Data should have exactly two columns''],
                    Inr None) \<and>
               length st' = length st"
proof -
  obtain st1 ok where c: "ProcessData_columns st [rawdata, background, dark] = (st1, ok)"
    by (cases "ProcessData_columns st [rawdata, background, dark]")
  note f = ProcessData_columns_frame [OF c]
  show ?thesis
  proof (cases ok)
    case False
    with f show ?thesis by (simp add: ProcessData_cases [OF c])
  next
    case True
    with f have two: "shape1 (st ! rawdata) = 2 \<and> shape1 (st ! background) = 2 \<and>
        shape1 (st ! dark) = 2" by simp
    with assms have "\<not> (shape0 (st ! rawdata) = shape0 (st ! background) \<and>
        shape0 (st ! background) = shape0 (st ! dark))" by blast
    with f have "\<not> (shape0 (st1 ! rawdata) = shape0 (st1 ! background) \<and>
        shape0 (st1 ! background) = shape0 (st1 ! dark))" by simp
    with True f two show ?thesis by (simp add: ProcessData_cases [OF c])
  qed
qed

lemma length_series_sub: "length (series_sub xs ys) = max (length xs) (length ys)"
  by (induction xs ys rule: series_sub.induct) simp_all

lemma setitem_keeps_first:
  "length rs = length zs \<Longrightarrow>
     map (\<lambda>r. r ! 0) (map2 (\<lambda>r v. r[Suc 0 := v]) rs zs) = map (\<lambda>r. r ! 0) rs"
  by (induction rs zs rule: list_induct2) simp_all

lemma setitem_second:
  "length rs = length zs \<Longrightarrow> list_all (\<lambda>r. length r = 2) rs \<Longrightarrow>
     map (\<lambda>r. r ! Suc 0) (map2 (\<lambda>r v. r[Suc 0 := v]) rs zs) = zs"
  by (induction rs zs rule: list_induct2) simp_all

lemma ProcessData_accepts:
  assumes v: "rawdata < length st" "background < length st" "dark < length st"
    and two: "shape1 (st ! rawdata) = 2" "shape1 (st ! background) = 2" "shape1 (st ! dark) = 2"
    and len: "shape0 (st ! rawdata) = shape0 (st ! background)"
      "shape0 (st ! background) = shape0 (st ! dark)"
  shows "\<exists>st'. ProcessData st rawdata background dark = (st', [], Inr (Some (length st))) \<and>
               length st' = Suc (length st) \<and>
               columns (st' ! length st) = required_columns \<and>
               df_getitem (st' ! length st) ''wavelength''
                 = Inr (map (\<lambda>r. r ! 0) (rows (st ! rawdata))) \<and>
               (list_all (\<lambda>r. length r = 2) (rows (st ! rawdata)) \<longrightarrow>
                df_getitem (st' ! length st) ''intensity''
                  = Inr (series_sub (series_sub (map (\<lambda>r. r ! 1) (rows (st ! rawdata)))
                                                (map (\<lambda>r. r ! 1) (rows (st ! background))))
                                    (map (\<lambda>r. r ! 1) (rows (st ! dark)))))"
proof -
  obtain st1 ok where c: "ProcessData_columns st [rawdata, background, dark] = (st1, ok)"
    by (cases "ProcessData_columns st [rawdata, background, dark]")
  note f = ProcessData_columns_frame [OF c]
  from f two have ok: "ok" by simp
  from f have l1: "length st1 = length st" by simp
  have cr: "columns (st1 ! rawdata) = required_columns"
    using ProcessData_columns_renamed [OF c [unfolded \<open>ok\<close> [THEN eqTrueI]], of rawdata] v by simp
  have cb: "columns (st1 ! background) = required_columns"
    using ProcessData_columns_renamed [OF c [unfolded \<open>ok\<close> [THEN eqTrueI]], of background] v by simp
  have cd: "columns (st1 ! dark) = required_columns"
    using ProcessData_columns_renamed [OF c [unfolded \<open>ok\<close> [THEN eqTrueI]], of dark] v by simp
  have s0: "shape0 (st1 ! rawdata) = shape0 (st1 ! background)"
    "shape0 (st1 ! background) = shape0 (st1 ! dark)"
    using f len by simp_all
  have rw: "rows (st1 ! rawdata) = rows (st ! rawdata)"
    "rows (st1 ! background) = rows (st ! background)" "rows (st1 ! dark) = rows (st ! dark)"
    using f by simp_all
  let ?st2 = "st1 @ [st1 ! rawdata]"
  have n2: "?st2 ! rawdata = st1 ! rawdata" "?st2 ! background = st1 ! background"
    "?st2 ! dark = st1 ! dark" "?st2 ! length st1 = st1 ! rawdata"
    using v l1 by (simp_all add: nth_append)
  let ?z = "series_sub (series_sub (map (\<lambda>r. r ! Suc 0) (rows (st ! rawdata)))
                                     (map (\<lambda>r. r ! Suc 0) (rows (st ! background))))
                         (map (\<lambda>r. r ! Suc 0) (rows (st ! dark)))"
  let ?new = "df_setitem (st1 ! rawdata) ''intensity'' ?z"
  let ?st3 = "?st2[length st1 := ?new]"
  have r: "ProcessData st rawdata background dark = (?st3, [], Inr (Some (length st1)))"
    using ok s0 n2 cr cb cd rw
    by (simp add: ProcessData_cases [OF c] getitem_intensity_required)
  have lz: "length ?z = length (rows (st ! rawdata))"
    using len by (simp add: length_series_sub shape0_def)
  have new: "?st3 ! length st = ?new"
    using l1 by simp
  have nc: "columns ?new = required_columns" and
    nr: "rows ?new = map2 (\<lambda>r v. r[Suc 0 := v]) (rows (st ! rawdata)) ?z"
    using cr rw by (simp_all add: df_setitem_def required_columns_def)
  have g1: "columns (?st3 ! length st) = required_columns"
    using nc new by simp
  have g2: "df_getitem (?st3 ! length st) ''wavelength''
              = Inr (map (\<lambda>r. r ! 0) (rows (st ! rawdata)))"
    unfolding new using nc nr setitem_keeps_first [OF lz [symmetric]]
    by (simp add: df_getitem_def required_columns_def)
  have g3: "list_all (\<lambda>r. length r = 2) (rows (st ! rawdata)) \<longrightarrow>
      df_getitem (?st3 ! length st) ''intensity'' = Inr ?z"
    unfolding new using nc nr setitem_second [OF lz [symmetric]]
    by (simp add: df_getitem_def required_columns_def)
  have g0: "length ?st3 = Suc (length st)"
    using l1 by simp
  show ?thesis
    apply (rule exI [of _ ?st3])
    using r g0 g1 g2 g3 l1 by simp
qed

lemma ProcessData_frame:
  assumes "ProcessData st rawdata background dark = (st', out, res)"
  shows "length st \<le> length st' \<and>
         (\<forall>a<length st.
            rows (st' ! a) = rows (st ! a) \<and>
            (columns (st' ! a) = columns (st ! a) \<or> columns (st' ! a) = required_columns) \<and>
            (a \<notin> {rawdata, background, dark} \<longrightarrow> st' ! a = st ! a)) \<and>
         (\<forall>p. res = Inr (Some p) \<longrightarrow> p = length st \<and> length st' = Suc (length st))"
proof -
  obtain st1 ok where c: "ProcessData_columns st [rawdata, background, dark] = (st1, ok)"
    by (cases "ProcessData_columns st [rawdata, background, dark]")
  note f = ProcessData_columns_frame [OF c]
  from f have l1: "length st1 = length st" by simp
  have k: "length st1 \<le> length st' \<and> (\<forall>a<length st1. st' ! a = st1 ! a) \<and>
      (\<forall>p. res = Inr (Some p) \<longrightarrow> p = length st1 \<and> length st' = Suc (length st1))"
    using assms unfolding ProcessData_cases [OF c]
    by (auto split: if_splits sum.splits simp: nth_append)
  have "\<forall>a<length st.
            rows (st' ! a) = rows (st ! a) \<and>
            (columns (st' ! a) = columns (st ! a) \<or> columns (st' ! a) = required_columns) \<and>
            (a \<notin> {rawdata, background, dark} \<longrightarrow> st' ! a = st ! a)"
  proof (intro allI impI)
    fix a assume "a < length st"
    with k l1 have e: "st' ! a = st1 ! a" by simp
    from f have "rows (st1 ! a) = rows (st ! a)"
      "columns (st1 ! a) = columns (st ! a) \<or> columns (st1 ! a) = required_columns"
      "a \<notin> set [rawdata, background, dark] \<longrightarrow> st1 ! a = st ! a" by simp_all
    with e show "rows (st' ! a) = rows (st ! a) \<and>
            (columns (st' ! a) = columns (st ! a) \<or> columns (st' ! a) = required_columns) \<and>
            (a \<notin> {rawdata, background, dark} \<longrightarrow> st' ! a = st ! a)" by simp
  qed
  with k l1 show ?thesis by simp
qed

lemma ProcessDataEach_frame:
  assumes "ProcessDataEach st raws bg dk sb sd = (st', res)"
  shows "length st \<le> length st' \<and> (\<forall>a<length st. st' ! a = st ! a) \<and>
         (\<forall>outs. res = Inr outs \<longrightarrow>
            length outs = length raws \<and> (\<forall>p\<in>set outs. length st \<le> p \<and> p < length st'))"
  using ProcessDataEach_loop_frame [of st raws bg dk sb sd "[]" st' res] assms
  by (auto simp: ProcessDataEach_def)

lemma ProcessDataEach_example:
  "ProcessDataEach [raw5, dark5, dark5] [0] 1 2 True True
     = ([raw5, dark5, dark5, corrected5], Inr [3])"
  by (simp add: ProcessDataEach_def alloc_def isub_intensity_def df_getitem_def df_setitem_def
      series_sub_array_def raw5_def dark5_def corrected5_def)

lemma ProcessData_example:
  "ProcessData [raw5, dark5, dark5] 0 1 2 = ([raw5, dark5, dark5, corrected5], [], Inr (Some 3))"
  by (simp add: ProcessData_def shape1_def shape0_def alloc_def required_columns_def
      df_getitem_def df_setitem_def raw5_def dark5_def corrected5_def)

text \<open>
  Claim C5, as amended. \<^verbatim>\<open>ProcessData\<close> rejects every call in which the three tables do
  not all have two columns and one row count: it prints its error line, returns
  \<^verbatim>\<open>None\<close> and creates no table. \<^verbatim>\<open>ProcessDataEach\<close> validates nothing: with both
  subtractions off (its defaults) it returns a copy of every raw table, whatever the
  shapes of the background and the dark table.
\<close>

theorem corrector_shape_validation:
  "(\<not> (shape1 (st ! rawdata) = 2 \<and> shape1 (st ! background) = 2 \<and> shape1 (st ! dark) = 2 \<and>
        shape0 (st ! rawdata) = shape0 (st ! background) \<and>
        shape0 (st ! background) = shape0 (st ! dark)) \<longrightarrow>
    (\<exists>st'. ProcessData st rawdata background dark
             = (st',
                [if shape1 (st ! rawdata) = 2 \<and> shape1 (st ! background) = 2 \<and>
                    shape1 (st ! dark) = 2
                 then ''ERROR EXCEPTION: Data should have the same length''
                 else ''ERROR EXCEPTION: Data should have exactly two columns''],
                Inr None) \<and>
           length st' = length st)) \<and>
   ((\<forall>a\<in>set raws. a < length st) \<longrightarrow>
    ProcessDataEach st raws background dark False False
      = (st @ map ((!) st) raws, Inr [length st ..< length st + length raws]))"
  using ProcessData_rejects [of st rawdata background dark]
    ProcessDataEach_loop_off [of raws st background dark "[]"]
  by (simp add: ProcessDataEach_def)

theorem corrector_shape_validation_witness:
  "\<not> (shape1 ([raw5, background4, dark5] ! 0) = 2 \<and> shape1 ([raw5, background4, dark5] ! 1) = 2 \<and>
      shape1 ([raw5, background4, dark5] ! 2) = 2 \<and>
      shape0 ([raw5, background4, dark5] ! 0) = shape0 ([raw5, background4, dark5] ! 1) \<and>
      shape0 ([raw5, background4, dark5] ! 1) = shape0 ([raw5, background4, dark5] ! 2)) \<and>
   (\<exists>st'. ProcessData [raw5, background4, dark5] 0 1 2
            = (st', [''ERROR EXCEPTION: Data should have the same length''], Inr None) \<and>
          length st' = 3) \<and>
   ProcessDataEach [raw5, background4, dark5] [0, 2] 1 2 False False
     = ([raw5, background4, dark5, raw5, dark5], Inr [3, 4])"
proof -
  let ?st = "[raw5, background4, dark5]"
  have s1: "shape1 (?st ! 0) = 2" "shape1 (?st ! 1) = 2" "shape1 (?st ! 2) = 2"
    by (simp_all add: shape1_def raw5_def background4_def dark5_def)
  have s0: "shape0 (?st ! 0) = 5" "shape0 (?st ! 1) = 4" "shape0 (?st ! 2) = 5"
    by (simp_all add: shape0_def raw5_def background4_def dark5_def)
  have h1: "\<not> (shape1 (?st ! 0) = 2 \<and> shape1 (?st ! 1) = 2 \<and> shape1 (?st ! 2) = 2 \<and>
      shape0 (?st ! 0) = shape0 (?st ! 1) \<and> shape0 (?st ! 1) = shape0 (?st ! 2))"
    using s0 by simp
  have h2: "\<forall>a\<in>set [0, 2::nat]. a < length ?st" by simp
  have up: "[length ?st ..< length ?st + length [0, 2::nat]] = [3, 4]"
    by (simp add: upt_rec)
  have st2: "?st @ map ((!) ?st) [0, 2] = [raw5, background4, dark5, raw5, dark5]"
    by simp
  have i: "(if shape1 (?st ! 0) = 2 \<and> shape1 (?st ! 1) = 2 \<and> shape1 (?st ! 2) = 2
            then ''ERROR EXCEPTION: Data should have the same length''
            else ''ERROR EXCEPTION: Data should have exactly two columns'')
           = ''ERROR EXCEPTION: Data should have the same length''"
    using s1 by (simp only: simp_thms if_True)
  have l3: "length ?st = 3" by simp
  note t = corrector_shape_validation [of ?st 0 1 2 "[0, 2]"]
  from t h1 have c1: "\<exists>st'. ProcessData ?st 0 1 2
            = (st', [''ERROR EXCEPTION: Data should have the same length''], Inr None) \<and>
          length st' = 3" unfolding i l3 by blast
  from t h2 have c2: "ProcessDataEach ?st [0, 2] 1 2 False False
     = ([raw5, background4, dark5, raw5, dark5], Inr [3, 4])" unfolding up st2 by blast
  from h1 c1 c2 show ?thesis by (intro conjI)
qed

text \<open>
  The claim as stated fails on \<^verbatim>\<open>ProcessDataEach\<close>: a raw table of five rows with a
  background of four rows signals nothing and yields a result.
\<close>

theorem ProcessDataEach_no_shape_check:
  "shape0 raw5 = 5 \<and> shape0 background4 = 4 \<and>
   ProcessDataEach [raw5, background4, dark5] [0] 1 2 False False
     = ([raw5, background4, dark5, raw5], Inr [3])"
  by (simp add: ProcessDataEach_def alloc_def shape0_def raw5_def background4_def)

text \<open>
  Claim C7, as amended. \<^verbatim>\<open>ProcessDataEach\<close> leaves every table that existed before the
  call as it was, and its results are new tables. \<^verbatim>\<open>ProcessData\<close> leaves the rows of
  every existing table as they were and returns a new table, but it may overwrite the
  column labels of its arguments with \<^verbatim>\<open>wavelength\<close>, \<^verbatim>\<open>intensity\<close>; tables that are
  not among its arguments are untouched.
\<close>

theorem corrector_frame:
  "(ProcessDataEach st raws background dark subtract_background subtract_dark = (st', res) \<longrightarrow>
      length st \<le> length st' \<and> (\<forall>a<length st. st' ! a = st ! a) \<and>
      (\<forall>outs. res = Inr outs \<longrightarrow>
         length outs = length raws \<and> (\<forall>p\<in>set outs. length st \<le> p \<and> p < length st'))) \<and>
   (ProcessData st rawdata background dark = (st'', out, res') \<longrightarrow>
      length st \<le> length st'' \<and>
      (\<forall>a<length st.
         rows (st'' ! a) = rows (st ! a) \<and>
         (columns (st'' ! a) = columns (st ! a) \<or>
          columns (st'' ! a) = [''wavelength'', ''intensity'']) \<and>
         (a \<notin> {rawdata, background, dark} \<longrightarrow> st'' ! a = st ! a)) \<and>
      (\<forall>p. res' = Inr (Some p) \<longrightarrow> p = length st \<and> length st'' = Suc (length st)))"
  using ProcessDataEach_frame [of st raws background dark subtract_background subtract_dark st' res]
    ProcessData_frame [of st rawdata background dark st'' out res']
  unfolding required_columns_def by blast

theorem corrector_frame_witness:
  "ProcessDataEach [raw5, dark5, dark5] [0] 1 2 True True
     = ([raw5, dark5, dark5, corrected5], Inr [3]) \<and>
   ProcessData [raw5, dark5, dark5] 0 1 2 = ([raw5, dark5, dark5, corrected5], [], Inr (Some 3)) \<and>
   length [raw5, dark5, dark5] \<le> length [raw5, dark5, dark5, corrected5] \<and>
   [raw5, dark5, dark5, corrected5] ! 0 = [raw5, dark5, dark5] ! 0 \<and>
   [raw5, dark5, dark5, corrected5] ! 1 = [raw5, dark5, dark5] ! 1 \<and>
   [raw5, dark5, dark5, corrected5] ! 2 = [raw5, dark5, dark5] ! 2 \<and>
   rows ([raw5, dark5, dark5, corrected5] ! 0) = rows ([raw5, dark5, dark5] ! 0) \<and>
   3 = length [raw5, dark5, dark5]"
proof -
  let ?st = "[raw5, dark5, dark5]"
  let ?st' = "[raw5, dark5, dark5, corrected5]"
  note e1 = ProcessDataEach_example and e2 = ProcessData_example
  note t = corrector_frame [of ?st "[0]" 1 2 True True ?st' "Inr [3]" 0 ?st' "[]" "Inr (Some 3)"]
  from t e1 have a: "length ?st \<le> length ?st'" and b: "\<forall>a<length ?st. ?st' ! a = ?st ! a"
    by blast+
  from t e2 have c: "\<forall>a<length ?st. rows (?st' ! a) = rows (?st ! a)"
    and d: "\<forall>p. Inr (Some 3) = (Inr (Some p) :: py_error + nat option) \<longrightarrow> p = length ?st"
    by blast+
  from d have d': "3 = length ?st" by blast
  have l: "0 < length ?st" "1 < length ?st" "2 < length ?st" by simp_all
  note b0 = b [rule_format, OF l(1)] and b1 = b [rule_format, OF l(2)]
    and b2 = b [rule_format, OF l(3)] and c0 = c [rule_format, OF l(1)]
  from e1 e2 a b0 b1 b2 c0 d' show ?thesis by (intro conjI)
qed

text \<open>
  The claim as stated fails on \<^verbatim>\<open>ProcessData\<close>: the column labels of an argument are
  overwritten in place.
\<close>

theorem ProcessData_renames_inputs:
  "columns counts5 = [''nm'', ''counts''] \<and>
   columns (fst (ProcessData [counts5, dark5, dark5] 0 1 2) ! 0) = [''wavelength'', ''intensity''] \<and>
   fst (ProcessData [counts5, dark5, dark5] 0 1 2) ! 0 \<noteq> [counts5, dark5, dark5] ! 0"
  by (simp add: ProcessData_def shape1_def shape0_def alloc_def required_columns_def
      df_getitem_def df_setitem_def counts5_def dark5_def)

section \<open>Properties of the continuum normalizer\<close>







lemma np_subtract_same_length:
  "length xs = length ys \<Longrightarrow> np_subtract xs ys = Inr (map2 (\<lambda>x y. x - y) xs ys)"
  by (simp add: np_subtract_def)






lemma constant_residual:
  "\<forall>w\<in>set ws. g w = c \<Longrightarrow>
     map2 (\<lambda>x y. x - y) (replicate (length ws) c) (map g ws) = replicate (length ws) (0::real)"
  by (induction ws) simp_all

lemma linalg_norm_zeros: "linalg_norm (replicate n 0) = 0"
  by (induction n) (simp_all add: linalg_norm_def)

text \<open>
  Claim C4, as amended. On a constant window for which the fit succeeds,
  \<^verbatim>\<open>FitContinuum\<close> raises nothing: it returns an array of the length of the window,
  and when the fitted continuum reproduces the constant, every entry of it is
  \<^verbatim>\<open>nan\<close>, the value of \<open>0 / 0\<close>.
\<close>

theorem constant_window_no_error:
  assumes fit: "fitter degree wavelength intensity = Inr g1_fit"
    and const: "intensity = replicate (length wavelength) c"
  shows "\<exists>ys. FitContinuum fitter degree wavelength intensity = Inr ys \<and>
              length ys = length wavelength \<and>
              ((\<forall>w\<in>set wavelength. g1_fit w = c) \<longrightarrow> ys = replicate (length wavelength) NaN)"
proof -
  let ?residual = "map2 (\<lambda>x y. x - y) intensity (map g1_fit wavelength)"
  let ?ys = "map (\<lambda>x. np_divide x (linalg_norm ?residual)) ?residual"
  have len: "length intensity = length (map g1_fit wavelength)"
    using const by simp
  have r: "FitContinuum fitter degree wavelength intensity = Inr ?ys"
    by (simp add: FitContinuum_def fit np_subtract_same_length [OF len])
  have l: "length ?ys = length wavelength"
    using const by simp
  have n: "(\<forall>w\<in>set wavelength. g1_fit w = c) \<longrightarrow> ?ys = replicate (length wavelength) NaN"
  proof
    assume "\<forall>w\<in>set wavelength. g1_fit w = c"
    then have z: "?residual = replicate (length wavelength) 0"
      unfolding const by (rule constant_residual)
    show "?ys = replicate (length wavelength) NaN"
      unfolding z by (simp add: linalg_norm_zeros np_divide_def)
  qed
  show ?thesis
    apply (rule exI [of _ ?ys])
    using r l n by (intro conjI)
qed

theorem constant_window_no_error_witness:
  "lsq_degree0 0 [1, 2, 3] [5, 5, 5] = Inr (\<lambda>x. 5) \<and>
   [5, 5, 5] = replicate (length [1, 2, 3 :: real]) (5 :: real) \<and>
   (\<exists>ys. FitContinuum lsq_degree0 0 [1, 2, 3] [5, 5, 5] = Inr ys \<and> length ys = 3 \<and>
         ys = [NaN, NaN, NaN])"
proof -
  have h1: "lsq_degree0 0 [1, 2, 3] [5, 5, 5] = Inr (\<lambda>x. 5)"
    by (simp add: lsq_degree0_def)
  have h2: "[5, 5, 5] = replicate (length [1, 2, 3 :: real]) (5 :: real)"
    by (simp add: numeral_3_eq_3)
  from constant_window_no_error [of lsq_degree0 0 "[1, 2, 3]" "[5, 5, 5]" "\<lambda>x. 5" 5, OF h1 h2]
  obtain ys where
    r: "FitContinuum lsq_degree0 0 [1, 2, 3] [5, 5, 5] = Inr ys" and
    l: "length ys = length [1, 2, 3 :: real]" and
    n: "(\<forall>w\<in>set [1, 2, 3 :: real]. (\<lambda>x. 5 :: real) w = 5) \<longrightarrow> ys = replicate (length [1, 2, 3 :: real]) NaN"
    by (elim exE conjE) (rule that; assumption)
  from l have l3: "length ys = 3" by simp
  from n have y: "ys = [NaN, NaN, NaN]" by (simp add: numeral_3_eq_3)
  have "\<exists>ys. FitContinuum lsq_degree0 0 [1, 2, 3] [5, 5, 5] = Inr ys \<and> length ys = 3 \<and>
         ys = [NaN, NaN, NaN]"
    apply (rule exI [of _ ys])
    using r l3 y by (intro conjI)
  with h1 h2 show ?thesis by (intro conjI)
qed

text \<open>
  The claim as stated fails: on the constant window \<open>[5, 5, 5]\<close> no error is signalled
  and an array is returned.
\<close>

theorem constant_window_returns_nan:
  "FitContinuum lsq_degree0 0 [1, 2, 3] [5, 5, 5] = Inr [NaN, NaN, NaN]"
  by (simp add: FitContinuum_def lsq_degree0_def np_subtract_def linalg_norm_def np_divide_def)

section \<open>Properties of the line detector\<close>

lemma np_getitem_nat:
  "np_getitem xs (int i) = (if i < length xs then Inr (xs ! i) else Inl IndexError)"
  by (simp add: np_getitem_def Let_def)

lemma np_getitem_plus:
  "np_getitem xs (int i + int m) = (if i + m < length xs then Inr (xs ! (i + m)) else Inl IndexError)"
  using np_getitem_nat [of xs "i + m"] by simp

lemma np_getitem_minus_le:
  "m \<le> i \<Longrightarrow>
     np_getitem xs (int i - int m) = (if i - m < length xs then Inr (xs ! (i - m)) else Inl IndexError)"
  using np_getitem_nat [of xs "i - m"] by (simp add: of_nat_diff)

lemma np_getitem_minus_wrap:
  assumes "i < m" and "m \<le> length xs + i"
  shows "np_getitem xs (int i - int m) = Inr (xs ! (length xs + i - m))"
proof -
  have neg: "int i - int m < 0" using assms(1) by simp
  have low: "- int (length xs) \<le> int i - int m" using assms(2) by simp
  have j: "nat (int i - int m + int (length xs)) = length xs + i - m"
    using assms(2) by simp
  show ?thesis
    using neg low by (simp add: np_getitem_def j)
qed

lemma np_getitem_minus_out:
  assumes "length xs + i < m"
  shows "np_getitem xs (int i - int m) = Inl IndexError"
  using assms by (simp add: np_getitem_def Let_def)


lemma line_test_upper:
  assumes "snap_index g lw = Inr index" and "index < length spectra" and "m \<le> index"
    and "length spectra \<le> index + m"
  shows "line_test g spectra lw cutoff (int m)
         = (if cutoff \<le> - spectra ! index \<and> spectra ! index < spectra ! (index - m)
            then Inl IndexError else Inr False)"
proof -
  have i: "index - m < length spectra" using assms by arith
  show ?thesis
    using assms i
    by (simp add: line_test_def np_getitem_nat np_getitem_plus np_getitem_minus_le Let_def)
qed

lemma line_test_lower:
  assumes "snap_index g lw = Inr index" and "index < m" and "index + m < length spectra"
  shows "line_test g spectra lw cutoff (int m)
         = Inr (cutoff \<le> - spectra ! index \<and>
                spectra ! index < spectra ! (length spectra + index - m) \<and>
                spectra ! index < spectra ! (index + m))"
proof -
  have i: "index < length spectra" "m \<le> length spectra + index" using assms by arith+
  show ?thesis
    using assms(1,3) i(1)
    by (simp add: line_test_def np_getitem_nat np_getitem_plus
        np_getitem_minus_wrap [OF assms(2) i(2)] Let_def)
qed

lemma line_test_shallow:
  assumes "snap_index g lw = Inr index" and "index < length spectra"
    and "- spectra ! index < cutoff"
  shows "line_test g spectra lw cutoff offset = Inr False"
  using assms by (simp add: line_test_def np_getitem_nat Let_def)

lemma line_test_never_upper:
  assumes "snap_index g lw = Inr index" and "length spectra \<le> index + m"
  shows "line_test g spectra lw cutoff (int m) \<noteq> Inr True"
  using assms
  by (auto simp: line_test_def np_getitem_plus Let_def split: sum.splits if_splits)




lemma window_g5: "wavelength_truncated g5 = Some [1, 2, 3, 4, 5]"
  by (simp add: g5_def)

lemma window_g12: "wavelength_truncated g12 = Some [1, 2, 3, 4, 5, 6, 7, 8, 9, 10, 11, 12]"
  by (simp add: g12_def)

lemma snap_g5: "snap_index g5 1 = Inr 0" "snap_index g5 3 = Inr 2" "snap_index g5 5 = Inr 4"
  by (simp_all add: snap_index_def g5_def np_argmin_def)

lemma snap_g12: "snap_index g12 1 = Inr 0" "snap_index g12 12 = Inr 11"
  by (simp_all add: snap_index_def g12_def np_argmin_def)


text \<open>
  Claim C2, as amended. Let the snapped index of an entry lie in the residual array.
  Within the margin of the upper end (10 for the catalog, 1 for a telluric line) the
  entry is never recorded: the loop raises \<^verbatim>\<open>IndexError\<close>, and ends there, when the
  depth reaches the cutoff and the flux is below the sample one margin before it, and
  goes on to the next entry otherwise. Within the margin of the lower end the index
  \<open>index - margin\<close> is negative and reads the sample \<open>length + index - margin\<close>, nothing
  is raised, and the entry is recorded when the depth reaches the cutoff and the flux
  is below that sample and the sample one margin after it. An entry whose depth is
  below the cutoff is never recorded and raises nothing.
\<close>

theorem edge_entries:
  assumes snap: "snap_index g lw = Inr index" and idx: "index < length spectra"
  shows
    "(10 \<le> index \<and> length spectra \<le> index + 10 \<longrightarrow>
        catalog_loop g spectra ((name, lw) # rest) threshold detected_lines
          = (if threshold \<le> - spectra ! index \<and> spectra ! index < spectra ! (index - 10)
             then Inl IndexError
             else catalog_loop g spectra rest threshold detected_lines)) \<and>
     (index < 10 \<and> index + 10 < length spectra \<longrightarrow>
        catalog_loop g spectra ((name, lw) # rest) threshold detected_lines
          = catalog_loop g spectra rest threshold
              (if threshold \<le> - spectra ! index \<and>
                  spectra ! index < spectra ! (length spectra + index - 10) \<and>
                  spectra ! index < spectra ! (index + 10)
               then dict_set detected_lines name lw else detected_lines)) \<and>
     (- spectra ! index < threshold \<longrightarrow>
        catalog_loop g spectra ((name, lw) # rest) threshold detected_lines
          = catalog_loop g spectra rest threshold detected_lines) \<and>
     (1 \<le> index \<and> length spectra \<le> index + 1 \<longrightarrow>
        telluric_loop g spectra (lw # rest') telluric_lines_d
          = (if 0.02 \<le> - spectra ! index \<and> spectra ! index < spectra ! (index - 1)
             then Inl IndexError
             else telluric_loop g spectra rest' telluric_lines_d)) \<and>
     (index < 1 \<and> index + 1 < length spectra \<longrightarrow>
        telluric_loop g spectra (lw # rest') telluric_lines_d
          = telluric_loop g spectra rest'
              (if 0.02 \<le> - spectra ! index \<and>
                  spectra ! index < spectra ! (length spectra + index - 1) \<and>
                  spectra ! index < spectra ! (index + 1)
               then dict_set telluric_lines_d lw lw else telluric_lines_d)) \<and>
     (- spectra ! index < 0.02 \<longrightarrow>
        telluric_loop g spectra (lw # rest') telluric_lines_d
          = telluric_loop g spectra rest' telluric_lines_d)"
proof (intro conjI impI)
  assume a: "10 \<le> index \<and> length spectra \<le> index + 10"
  have "line_test g spectra lw threshold (int 10)
         = (if threshold \<le> - spectra ! index \<and> spectra ! index < spectra ! (index - 10)
            then Inl IndexError else Inr False)"
    using snap idx a by (intro line_test_upper) simp_all
  then show "catalog_loop g spectra ((name, lw) # rest) threshold detected_lines
          = (if threshold \<le> - spectra ! index \<and> spectra ! index < spectra ! (index - 10)
             then Inl IndexError
             else catalog_loop g spectra rest threshold detected_lines)"
    by simp
next
  assume a: "index < 10 \<and> index + 10 < length spectra"
  have "line_test g spectra lw threshold (int 10)
         = Inr (threshold \<le> - spectra ! index \<and>
                spectra ! index < spectra ! (length spectra + index - 10) \<and>
                spectra ! index < spectra ! (index + 10))"
    using snap a by (intro line_test_lower) simp_all
  then show "catalog_loop g spectra ((name, lw) # rest) threshold detected_lines
          = catalog_loop g spectra rest threshold
              (if threshold \<le> - spectra ! index \<and>
                  spectra ! index < spectra ! (length spectra + index - 10) \<and>
                  spectra ! index < spectra ! (index + 10)
               then dict_set detected_lines name lw else detected_lines)"
    by simp
next
  assume a: "- spectra ! index < threshold"
  have "line_test g spectra lw threshold 10 = Inr False"
    using snap idx a by (rule line_test_shallow)
  then show "catalog_loop g spectra ((name, lw) # rest) threshold detected_lines
          = catalog_loop g spectra rest threshold detected_lines"
    by simp
next
  assume a: "1 \<le> index \<and> length spectra \<le> index + 1"
  have "line_test g spectra lw 0.02 (int 1)
         = (if 0.02 \<le> - spectra ! index \<and> spectra ! index < spectra ! (index - 1)
            then Inl IndexError else Inr False)"
    using snap idx a by (intro line_test_upper) simp_all
  then show "telluric_loop g spectra (lw # rest') telluric_lines_d
          = (if 0.02 \<le> - spectra ! index \<and> spectra ! index < spectra ! (index - 1)
             then Inl IndexError
             else telluric_loop g spectra rest' telluric_lines_d)"
    by simp
next
  assume a: "index < 1 \<and> index + 1 < length spectra"
  have "line_test g spectra lw 0.02 (int 1)
         = Inr (0.02 \<le> - spectra ! index \<and>
                spectra ! index < spectra ! (length spectra + index - 1) \<and>
                spectra ! index < spectra ! (index + 1))"
    using snap a by (intro line_test_lower) simp_all
  then show "telluric_loop g spectra (lw # rest') telluric_lines_d
          = telluric_loop g spectra rest'
              (if 0.02 \<le> - spectra ! index \<and>
                  spectra ! index < spectra ! (length spectra + index - 1) \<and>
                  spectra ! index < spectra ! (index + 1)
               then dict_set telluric_lines_d lw lw else telluric_lines_d)"
    by simp
next
  assume a: "- spectra ! index < 0.02"
  have "line_test g spectra lw 0.02 1 = Inr False"
    using snap idx a by (rule line_test_shallow)
  then show "telluric_loop g spectra (lw # rest') telluric_lines_d
          = telluric_loop g spectra rest' telluric_lines_d"
    by simp
qed

theorem edge_entries_witness:
  "snap_index g12 12 = Inr 11 \<and> 11 < length dip_last12 \<and>
   (10 :: nat) \<le> 11 \<and> length dip_last12 \<le> 11 + 10 \<and>
   catalog_loop g12 dip_last12 [(''Test'', 12)] 0.03 [] = Inl IndexError \<and>
   snap_index g12 1 = Inr 0 \<and> (0 :: nat) < 10 \<and> 0 + 10 < length dip_first12 \<and>
   catalog_loop g12 dip_first12 [(''Test'', 1)] 0.03 [] = Inr [(''Test'', 1)] \<and>
   snap_index g5 3 = Inr 2 \<and> - dip_middle ! 2 < 0.10 \<and>
   catalog_loop g5 dip_middle [(''Test'', 3)] 0.10 [] = Inr [] \<and>
   snap_index g5 5 = Inr 4 \<and> (1 :: nat) \<le> 4 \<and> length dip_last \<le> 4 + 1 \<and>
   telluric_loop g5 dip_last [5] [] = Inl IndexError \<and>
   snap_index g5 1 = Inr 0 \<and> (0 :: nat) < 1 \<and> 0 + 1 < length dip_first \<and>
   telluric_loop g5 dip_first [1] [] = Inr [(1, 1)] \<and>
   - dip_last ! 2 < 0.02 \<and>
   telluric_loop g5 dip_last [3] [] = Inr []"
proof -
  have i1: "11 < length dip_last12" by (simp add: dip_last12_def)
  have r1: "(10 :: nat) \<le> 11 \<and> length dip_last12 \<le> 11 + 10" by (simp add: dip_last12_def)
  have c1: "0.03 \<le> - dip_last12 ! 11 \<and> dip_last12 ! 11 < dip_last12 ! (11 - 10)"
    by (simp add: dip_last12_def)
  from edge_entries [OF snap_g12(2) i1, of "''Test''" "[]" "0.03" "[]"] r1 c1
  have e1: "catalog_loop g12 dip_last12 [(''Test'', 12)] 0.03 [] = Inl IndexError"
    by (simp del: catalog_loop.simps telluric_loop.simps)
  have i2: "0 < length dip_first12" by (simp add: dip_first12_def)
  have r2: "(0 :: nat) < 10 \<and> 0 + 10 < length dip_first12" by (simp add: dip_first12_def)
  have c2: "0.03 \<le> - dip_first12 ! 0 \<and>
      dip_first12 ! 0 < dip_first12 ! (length dip_first12 + 0 - 10) \<and>
      dip_first12 ! 0 < dip_first12 ! (0 + 10)"
    by (simp add: dip_first12_def)
  from edge_entries [OF snap_g12(1) i2, of "''Test''" "[]" "0.03" "[]"] r2 c2
  have "catalog_loop g12 dip_first12 [(''Test'', 1)] 0.03 []
      = catalog_loop g12 dip_first12 [] 0.03 (dict_set [] ''Test'' 1)"
    by (simp del: catalog_loop.simps telluric_loop.simps)
  then have e2: "catalog_loop g12 dip_first12 [(''Test'', 1)] 0.03 [] = Inr [(''Test'', 1)]"
    by simp
  have i3: "2 < length dip_middle" by (simp add: dip_middle_def)
  have c3: "- dip_middle ! 2 < 0.10" by (simp add: dip_middle_def)
  from edge_entries [OF snap_g5(2) i3, of "''Test''" "[]" "0.10" "[]"] c3
  have "catalog_loop g5 dip_middle [(''Test'', 3)] 0.10 [] = catalog_loop g5 dip_middle [] 0.10 []"
    by (simp del: catalog_loop.simps telluric_loop.simps)
  then have e3: "catalog_loop g5 dip_middle [(''Test'', 3)] 0.10 [] = Inr []"
    by simp
  have i4: "4 < length dip_last" by (simp add: dip_last_def)
  have r4: "(1 :: nat) \<le> 4 \<and> length dip_last \<le> 4 + 1" by (simp add: dip_last_def)
  have c4: "0.02 \<le> - dip_last ! 4 \<and> dip_last ! 4 < dip_last ! (4 - 1)"
    by (simp add: dip_last_def)
  from edge_entries [OF snap_g5(3) i4, of _ _ _ _ "[]" "[]"] r4 c4
  have e4: "telluric_loop g5 dip_last [5] [] = Inl IndexError"
    by (simp del: catalog_loop.simps telluric_loop.simps)
  have i5: "0 < length dip_first" by (simp add: dip_first_def)
  have r5: "(0 :: nat) < 1 \<and> 0 + 1 < length dip_first" by (simp add: dip_first_def)
  have c5: "0.02 \<le> - dip_first ! 0 \<and> dip_first ! 0 < dip_first ! (length dip_first + 0 - 1) \<and>
      dip_first ! 0 < dip_first ! (0 + 1)"
    by (simp add: dip_first_def)
  from edge_entries [OF snap_g5(1) i5, of _ _ _ _ "[]" "[]"] r5 c5
  have "telluric_loop g5 dip_first [1] [] = telluric_loop g5 dip_first [] (dict_set [] 1 1)"
    by (simp del: catalog_loop.simps telluric_loop.simps)
  then have e5: "telluric_loop g5 dip_first [1] [] = Inr [(1, 1)]"
    by simp
  have i6: "2 < length dip_last" by (simp add: dip_last_def)
  have c6: "- dip_last ! 2 < 0.02" by (simp add: dip_last_def)
  from edge_entries [OF snap_g5(2) i6, of _ _ _ _ "[]" "[]"] c6
  have "telluric_loop g5 dip_last [3] [] = telluric_loop g5 dip_last [] []"
    by (simp del: catalog_loop.simps telluric_loop.simps)
  then have e6: "telluric_loop g5 dip_last [3] [] = Inr []"
    by simp
  from snap_g12 snap_g5 i1 r1 e1 r2 e2 c3 e3 r4 e4 r5 e5 c6 e6
  show ?thesis by (intro conjI) simp_all
qed

text \<open>
  The claim as stated fails both ways: an entry snapped to the first sample is
  recorded, and an entry snapped to the last sample raises \<^verbatim>\<open>IndexError\<close>, which also
  ends the processing of the entries after it.
\<close>

theorem edge_entry_detected_or_raises:
  "snap_index g5 1 = Inr 0 \<and>
   DetectAndPlotLines g5 dip_first [1, 2, 3, 4, 5] [] [(''TL'', [1])] 0.03 = Inr ([], [(1, 1)]) \<and>
   snap_index g5 5 = Inr 4 \<and>
   DetectAndPlotLines g5 dip_last [1, 2, 3, 4, 5] [] [(''TL'', [5])] 0.03 = Inl IndexError \<and>
   snap_index g12 1 = Inr 0 \<and>
   DetectAndPlotLines g12 dip_first12 [1, 2, 3, 4, 5, 6, 7, 8, 9, 10, 11, 12]
     [(''Test'', 1)] [(''TL'', [])] 0.03 = Inr ([(''Test'', 1)], []) \<and>
   snap_index g12 12 = Inr 11 \<and>
   DetectAndPlotLines g12 dip_last12 [1, 2, 3, 4, 5, 6, 7, 8, 9, 10, 11, 12]
     [(''Test'', 12), (''Other'', 6)] [(''TL'', [])] 0.03 = Inl IndexError"
  by (simp add: DetectAndPlotLines_def line_test_def snap_g5 snap_g12 window_g5 window_g12
      np_getitem_def dip_first_def dip_last_def dip_first12_def dip_last12_def)



lemma named_arguments_unread:
  "DefSpectrumForLines g spectr minwavelength maxwavelength
     = DefSpectrumForLines g spectr' minwavelength maxwavelength \<and>
   DetectAndPlotLines g spectra wavelength spectral_lines telluric_lines threshold
     = DetectAndPlotLines g spectra wavelength' spectral_lines telluric_lines threshold"
  by (simp add: DefSpectrumForLines_def DetectAndPlotLines_def)

text \<open>
  Claim C3 does not hold of the code: with equal arguments, \<^verbatim>\<open>DefSpectrumForLines\<close>
  returns the window of whatever table the module's \<^verbatim>\<open>sum_spectra\<close> holds, and
  \<^verbatim>\<open>DetectAndPlotLines\<close> snaps to whatever array the module's
  \<^verbatim>\<open>wavelength_truncated\<close> holds; both raise \<^verbatim>\<open>NameError\<close> when the name is not
  assigned.
\<close>

theorem stages_read_module_state:
  "DefSpectrumForLines \<lparr>sum_spectra = Some table_A, wavelength_truncated = None\<rparr> table_B 0 1000
     = Inr ([Some 500, Some 400], [Some 10, Some 2]) \<and>
   DefSpectrumForLines \<lparr>sum_spectra = Some table_B, wavelength_truncated = None\<rparr> table_B 0 1000
     = Inr ([Some 500], [Some 20]) \<and>
   DefSpectrumForLines \<lparr>sum_spectra = None, wavelength_truncated = None\<rparr> table_B 0 1000
     = Inl (NameError ''sum_spectra'') \<and>
   DetectAndPlotLines \<lparr>sum_spectra = None, wavelength_truncated = Some [1, 2, 3, 4, 5]\<rparr>
       dip_middle [1, 2, 3, 4, 5] [] [(''TL'', [3])] 0.03
     = Inr ([], [(3, 3)]) \<and>
   DetectAndPlotLines \<lparr>sum_spectra = None, wavelength_truncated = Some [3, 4, 5, 6, 7]\<rparr>
       dip_middle [1, 2, 3, 4, 5] [] [(''TL'', [3])] 0.03
     = Inr ([], []) \<and>
   DetectAndPlotLines \<lparr>sum_spectra = None, wavelength_truncated = None\<rparr>
       dip_middle [1, 2, 3, 4, 5] [] [(''TL'', [3])] 0.03
     = Inl (NameError ''wavelength_truncated'')"
  by (simp add: DefSpectrumForLines_def df_getitem_def np_mask_def table_A_def table_B_def
      DetectAndPlotLines_def line_test_def snap_index_def np_argmin_def np_getitem_def
      dip_middle_def)

end
